theory Spec2Isabelle
  imports Main "HOL-Library.Sublist"
begin

section \<open>LANA: the video prompt preparer (generate\_video.py)\<close>

text \<open>
  The script reads a scene description from a JSON configuration file or from the command
  line, expands it into a fixed prompt template and writes three files into an output
  directory. This theory embeds the class \<open>VideoGenerator\<close> and the function \<open>main\<close>
  of \<open>generate_video.py\<close> and proves the properties of the specification about them.

  Conventions of the embedding:
  \<^item> a Python \<open>str\<close> is a \<open>string\<close>; every \<open>char\<close> stands for one code point
    (the code points below 256), so that \<open>len\<close> is \<open>length\<close>;
  \<^item> the values that \<open>json.load\<close> can return are the datatype \<open>pyval\<close>
    (JSON numbers with a fraction or an exponent, Python floats, are left out);
  \<^item> an exception is a value \<open>Exn cls msg\<close>; a function that can raise returns
    \<open>exn + 'a\<close>, together with the world it leaves behind;
  \<^item> the file system, the environment variables and the console are fields of the
    record \<open>world\<close>, passed through every function that touches them;
  \<^item> \<open>self\<close> is dropped from the methods that do not read it, and the method
    \<open>_load_config\<close> is called \<open>load_config\<close>.
\<close>

subsection \<open>Python values\<close>

datatype pyval =
    PyNone
  | PyBool bool
  | PyInt int
  | PyStr string
  | PyList "pyval list"
  | PyDict "(string \<times> pyval) list"

text \<open>Truth value testing, as \<open>not prompt\<close> and \<open>if config_path\<close> use it.\<close>

fun truthy :: "pyval \<Rightarrow> bool" where
  "truthy PyNone = False"
| "truthy (PyBool b) = b"
| "truthy (PyInt i) = (i \<noteq> 0)"
| "truthy (PyStr s) = (s \<noteq> [])"
| "truthy (PyList xs) = (xs \<noteq> [])"
| "truthy (PyDict kvs) = (kvs \<noteq> [])"

text \<open>An optional command line argument is \<open>None\<close> or a \<open>str\<close>.\<close>

fun arg_val :: "string option \<Rightarrow> pyval" where
  "arg_val None = PyNone"
| "arg_val (Some s) = PyStr s"

subsection \<open>Exceptions\<close>

datatype exn_class =
    FileNotFoundError
  | IsADirectoryError
  | NotADirectoryError
  | FileExistsError
  | PermissionError
  | OSError
  | JSONDecodeError
  | UnicodeDecodeError
  | TypeError
  | AttributeError
  | NotImplementedError

datatype exn = Exn exn_class string

fun exn_cls :: "exn \<Rightarrow> exn_class" where
  "exn_cls (Exn c m) = c"

text \<open>\<open>str(e)\<close>, what \<open>{e}\<close> prints.\<close>

fun exn_str :: "exn \<Rightarrow> string" where
  "exn_str (Exn c m) = m"

text \<open>The classes that \<open>except OSError\<close> catches.\<close>

definition is_os_error :: "exn_class \<Rightarrow> bool" where
  "is_os_error c =
     (c \<in> {FileNotFoundError, IsADirectoryError, NotADirectoryError, FileExistsError,
            PermissionError, OSError})"

subsection \<open>Formatting: \<open>str\<close>, \<open>repr\<close> and \<open>len\<close>\<close>

abbreviation squote :: char where "squote \<equiv> CHR 0x27"
abbreviation dquote :: char where "dquote \<equiv> CHR 0x22"
abbreviation backslash :: char where "backslash \<equiv> CHR 0x5C"

definition hex_digit :: "nat \<Rightarrow> char" where
  "hex_digit d = ''0123456789abcdef'' ! (d mod 16)"

fun str_of_nat :: "nat \<Rightarrow> string" where
  "str_of_nat n =
     (if n < 10 then [hex_digit n] else str_of_nat (n div 10) @ [hex_digit (n mod 10)])"

declare str_of_nat.simps [simp del]

definition str_of_int :: "int \<Rightarrow> string" where
  "str_of_int i = (if i < 0 then CHR ''-'' # str_of_nat (nat (- i)) else str_of_nat (nat i))"

text \<open>
  \<open>repr\<close> of a \<open>str\<close>: double quotes when the text has a single quote and no double
  quote, single quotes otherwise; the quote in use and the backslash are escaped, and so
  are tab, newline, carriage return and the characters that are not printable.
\<close>

definition printable :: "char \<Rightarrow> bool" where
  "printable c =
     (let n = (of_char c :: nat)
      in 0x20 \<le> n \<and> n < 0x7F \<or> 0xA0 < n \<and> n \<noteq> 0xAD)"

definition repr_char :: "char \<Rightarrow> char \<Rightarrow> string" where
  "repr_char quote c =
     (if c = quote \<or> c = backslash then [backslash, c]
      else if c = CHR 0x09 then [backslash, CHR ''t'']
      else if c = CHR 0x0A then [backslash, CHR ''n'']
      else if c = CHR 0x0D then [backslash, CHR ''r'']
      else if printable c then [c]
      else [backslash, CHR ''x'', hex_digit (of_char c div 16), hex_digit (of_char c mod 16)])"

definition repr_str :: "string \<Rightarrow> string" where
  "repr_str s =
     (let quote = (if squote \<in> set s \<and> dquote \<notin> set s then dquote else squote)
      in quote # concat (map (repr_char quote) s) @ [quote])"

fun intercalate :: "string \<Rightarrow> string list \<Rightarrow> string" where
  "intercalate sep [] = []"
| "intercalate sep [x] = x"
| "intercalate sep (x # y # ys) = x @ sep @ intercalate sep (y # ys)"

fun py_repr :: "pyval \<Rightarrow> string" where
  "py_repr PyNone = ''None''"
| "py_repr (PyBool b) = (if b then ''True'' else ''False'')"
| "py_repr (PyInt i) = str_of_int i"
| "py_repr (PyStr s) = repr_str s"
| "py_repr (PyList xs) = ''['' @ intercalate '', '' (map py_repr xs) @ '']''"
| "py_repr (PyDict kvs) =
     ''{'' @ intercalate '', '' (map (\<lambda>kv. repr_str (fst kv) @ '': '' @ py_repr (snd kv)) kvs)
       @ ''}''"

text \<open>\<open>str(v)\<close>, which an f-string applies to \<open>{v}\<close>: the text itself for a \<open>str\<close>.\<close>

fun py_str :: "pyval \<Rightarrow> string" where
  "py_str (PyStr s) = s"
| "py_str v = py_repr v"

fun type_name :: "pyval \<Rightarrow> string" where
  "type_name PyNone = ''NoneType''"
| "type_name (PyBool b) = ''bool''"
| "type_name (PyInt i) = ''int''"
| "type_name (PyStr s) = ''str''"
| "type_name (PyList xs) = ''list''"
| "type_name (PyDict kvs) = ''dict''"

text \<open>\<open>len(v)\<close> raises \<open>TypeError\<close> on a value that has no length.\<close>

fun py_len :: "pyval \<Rightarrow> exn + nat" where
  "py_len (PyStr s) = Inr (length s)"
| "py_len (PyList xs) = Inr (length xs)"
| "py_len (PyDict kvs) = Inr (length kvs)"
| "py_len v =
     Inl (Exn TypeError (''object of type '' @ [squote] @ type_name v @ [squote] @ '' has no len()''))"

text \<open>
  \<open>d.get(key, default)\<close>. Only a \<open>dict\<close> has the method: on any other value the
  attribute lookup raises \<open>AttributeError\<close>.
\<close>

fun py_get :: "pyval \<Rightarrow> string \<Rightarrow> pyval \<Rightarrow> exn + pyval" where
  "py_get (PyDict kvs) key dflt =
     Inr (case map_of kvs key of None \<Rightarrow> dflt | Some v \<Rightarrow> v)"
| "py_get v key dflt =
     Inl (Exn AttributeError
       ([squote] @ type_name v @ [squote] @ '' object has no attribute '' @ [squote] @ ''get'' @ [squote]))"

subsection \<open>\<open>VideoGenerator.generate_video_prompt\<close>\<close>

definition generate_video_prompt :: "pyval \<Rightarrow> string" where
  "generate_video_prompt scene_description =
     ''Generate a cinematic visual motion video with the following specifications:\<newline>'' @
     ''\<newline>'' @
     ''Scene Description:\<newline>'' @
     py_str scene_description @ ''\<newline>'' @
     ''\<newline>'' @
     ''Technical Requirements:\<newline>'' @
     ''- Resolution: 1920x1080 (Full HD)\<newline>'' @
     ''- Frame Rate: 30 fps\<newline>'' @
     ''- Duration: 30-60 seconds\<newline>'' @
     ''- Camera Movement: Smooth cinematic pans and slow zooms\<newline>'' @
     ''- Lighting: Natural golden hour lighting with soft shadows\<newline>'' @
     ''- Motion: Slow motion capture (120fps source for 30fps output)\<newline>'' @
     ''- Focus: Sharp foreground, slightly soft background for depth\<newline>'' @
     ''- Color Grading: Warm, inviting tones with golden highlights\<newline>'' @
     ''- Audio: Ambient sounds (crackling fire, gentle wind, distant nature)\<newline>'' @
     ''\<newline>'' @
     ''Style:\<newline>'' @
     ''- Cinematographic approach\<newline>'' @
     ''- Documentary-style realism\<newline>'' @
     ''- Attention to cultural authenticity\<newline>'' @
     ''- Emphasis on details and textures\<newline>''"

subsection \<open>Paths (\<open>pathlib\<close>, POSIX flavour)\<close>

text \<open>
  A path is its root (empty, one slash or two slashes) and its list of components.
  \<open>Path\<close> parses a string as \<open>pathlib.PurePosixPath\<close> does: the root is split off, the
  rest is cut at every slash, and empty components and \<open>.\<close> are dropped.
\<close>

type_synonym path = "string \<times> string list"

fun str_split :: "char \<Rightarrow> string \<Rightarrow> string list" where
  "str_split sep [] = [[]]"
| "str_split sep (c # cs) =
     (if c = sep then [] # str_split sep cs
      else (case str_split sep cs of [] \<Rightarrow> [[c]] | x # xs \<Rightarrow> (c # x) # xs))"

definition splitroot :: "string \<Rightarrow> string \<times> string" where
  "splitroot p =
     (if take 1 p \<noteq> ''/'' then ([], p)
      else if take 1 (drop 1 p) \<noteq> ''/'' \<or> take 1 (drop 2 p) = ''/'' then (''/'', drop 1 p)
      else (''//'', drop 2 p))"

definition Path :: "string \<Rightarrow> path" where
  "Path p =
     (case splitroot p of
        (root, rel) \<Rightarrow> (root, filter (\<lambda>x. x \<noteq> [] \<and> x \<noteq> ''.'') (str_split CHR ''/'' rel)))"

text \<open>\<open>p / seg\<close>: a segment with a root replaces \<open>p\<close>, any other is appended.\<close>

definition joinpath :: "path \<Rightarrow> string \<Rightarrow> path" where
  "joinpath p seg =
     (case Path seg of
        (root, parts) \<Rightarrow> if root \<noteq> [] then (root, parts) else (fst p, snd p @ parts))"

text \<open>\<open>str(p)\<close>, what \<open>{prompt_file}\<close> prints.\<close>

definition path_str :: "path \<Rightarrow> string" where
  "path_str p =
     (let s = fst p @ intercalate ''/'' (snd p) in if s = [] then ''.'' else s)"

subsection \<open>The world: file system, environment, console\<close>

text \<open>
  The file system maps a path to a regular file with its text or to a directory; a path
  without components (the root, the current directory) is a directory. A path is looked
  up through the directories above it, from the top: each must exist, be a directory and
  let itself be searched. Links are not modelled and \<open>..\<close> is a name like any other:
  two paths name the same node only when they parse to the same root and components.

  Failures that the state of the model does not decide (permission denied, disk full,
  read-only device, a name that is too long) are an oracle of the world:
  \<open>faults w call p\<close> is the exception that the system call \<open>call\<close> raises on the
  path \<open>p\<close>, if any, once the directories above \<open>p\<close> have been passed;
  \<open>faults w Sys_lookup p\<close> is the exception of a system call that has to pass
  through \<open>p\<close> on the way to a longer path and cannot.
\<close>

datatype node = File string | Dir

datatype syscall = Sys_lookup | Sys_open_r | Sys_open_w | Sys_write | Sys_mkdir

text \<open>
  What the process shows: a line of standard output, the usage error of \<open>argparse\<close>
  (usage line and message on standard error), or the traceback of an uncaught exception.
\<close>

datatype console_item = Stdout string | Usage_error string | Traceback exn

record world =
  nodes :: "path \<rightharpoonup> node"
  faults :: "syscall \<Rightarrow> path \<rightharpoonup> exn"
  environ :: "string \<rightharpoonup> string"
  console :: "console_item list"

definition print :: "string \<Rightarrow> world \<Rightarrow> world" where
  "print s w = w\<lparr>console := console w @ [Stdout s]\<rparr>"

text \<open>\<open>str\<close> of an \<open>OSError\<close> with an error number, a message and a file name.\<close>

definition os_error :: "exn_class \<Rightarrow> nat \<Rightarrow> string \<Rightarrow> string \<Rightarrow> exn" where
  "os_error cls errno strerror filename =
     Exn cls (''[Errno '' @ str_of_nat errno @ ''] '' @ strerror @ '': '' @ repr_str filename)"

definition node_at :: "world \<Rightarrow> path \<Rightarrow> node option" where
  "node_at w p = (if snd p = [] then Some Dir else nodes w p)"

text \<open>
  \<open>walk w s root pre cs\<close> passes the directories named by the components \<open>cs\<close> but
  the last, below the directory \<open>(root, pre)\<close>, and returns the first error: a failure
  of the oracle, a missing directory, or a regular file in the place of a directory.
  \<open>s\<close> is the file name that the error message shows.
\<close>

fun walk :: "world \<Rightarrow> string \<Rightarrow> string \<Rightarrow> string list \<Rightarrow> string list \<Rightarrow> exn option" where
  "walk w s root pre [] = None"
| "walk w s root pre [c] = None"
| "walk w s root pre (c # c' # cs) =
     (case faults w Sys_lookup (root, pre @ [c]) of
        Some e \<Rightarrow> Some e
      | None \<Rightarrow>
          (case nodes w (root, pre @ [c]) of
             None \<Rightarrow> Some (os_error FileNotFoundError 2 ''No such file or directory'' s)
           | Some (File text) \<Rightarrow> Some (os_error NotADirectoryError 20 ''Not a directory'' s)
           | Some Dir \<Rightarrow> walk w s root (pre @ [c]) (c' # cs)))"

definition above :: "world \<Rightarrow> string \<Rightarrow> path \<Rightarrow> exn option" where
  "above w s p = walk w s (fst p) [] (snd p)"

text \<open>
  \<open>open(s, 'r')\<close> followed by reading the whole file. The empty string names no file.
  A string that ends with a slash or with the component \<open>.\<close> asks for a directory, so
  that a regular file there raises \<open>NotADirectoryError\<close>.
\<close>

definition dir_form :: "string \<Rightarrow> bool" where
  "dir_form s = (last (str_split CHR ''/'' s) \<in> {[], ''.''})"

definition read_text :: "string \<Rightarrow> world \<Rightarrow> exn + string" where
  "read_text s w =
     (if s = [] then Inl (os_error FileNotFoundError 2 ''No such file or directory'' s)
      else (case above w s (Path s) of
              Some e \<Rightarrow> Inl e
            | None \<Rightarrow>
                (case faults w Sys_open_r (Path s) of
                   Some e \<Rightarrow> Inl e
                 | None \<Rightarrow>
                     (case node_at w (Path s) of
                        None \<Rightarrow> Inl (os_error FileNotFoundError 2 ''No such file or directory'' s)
                      | Some Dir \<Rightarrow> Inl (os_error IsADirectoryError 21 ''Is a directory'' s)
                      | Some (File text) \<Rightarrow>
                          if dir_form s
                          then Inl (os_error NotADirectoryError 20 ''Not a directory'' s)
                          else Inr text))))"

text \<open>
  \<open>os.mkdir(p)\<close>, one system call: the directories above \<open>p\<close> must be there, and
  \<open>p\<close> itself must not.
\<close>

definition os_mkdir :: "path \<Rightarrow> world \<Rightarrow> exn + world" where
  "os_mkdir p w =
     (case above w (path_str p) p of
        Some e \<Rightarrow> Inl e
      | None \<Rightarrow>
          (case faults w Sys_mkdir p of
             Some e \<Rightarrow> Inl e
           | None \<Rightarrow>
               (case node_at w p of
                  Some n \<Rightarrow> Inl (os_error FileExistsError 17 ''File exists'' (path_str p))
                | None \<Rightarrow> Inr (w\<lparr>nodes := (nodes w)(p \<mapsto> Dir)\<rparr>))))"

text \<open>\<open>Path.is_dir()\<close> and \<open>Path.parent\<close>.\<close>

definition is_dir :: "world \<Rightarrow> path \<Rightarrow> bool" where
  "is_dir w p = (above w (path_str p) p = None \<and> node_at w p = Some Dir)"

definition parent :: "path \<Rightarrow> path" where
  "parent p = (fst p, butlast (snd p))"

text \<open>
  \<open>Path.mkdir(parents=True, exist_ok=True)\<close>, as \<open>pathlib\<close> does it. When
  \<open>os.mkdir\<close> raises \<open>FileNotFoundError\<close>, the parent is made in the same way and
  \<open>os.mkdir\<close> is tried once more; any other \<open>OSError\<close> is dropped when the path is a
  directory (\<open>exist_ok\<close>) and raised otherwise. Directories made on the way stay when
  the call fails.
\<close>

definition mkdir_exist_ok :: "exn \<Rightarrow> path \<Rightarrow> world \<Rightarrow> (exn + unit) \<times> world" where
  "mkdir_exist_ok e p w =
     (if is_os_error (exn_cls e) \<and> is_dir w p then (Inr (), w) else (Inl e, w))"

text \<open>\<open>Path.mkdir(parents=False, exist_ok=True)\<close>, the second try.\<close>

definition mkdir_leaf :: "path \<Rightarrow> world \<Rightarrow> (exn + unit) \<times> world" where
  "mkdir_leaf p w =
     (case os_mkdir p w of
        Inr w1 \<Rightarrow> (Inr (), w1)
      | Inl e \<Rightarrow>
          if exn_cls e = FileNotFoundError then (Inl e, w) else mkdir_exist_ok e p w)"

function mkdir :: "path \<Rightarrow> world \<Rightarrow> (exn + unit) \<times> world" where
  "mkdir p w =
     (case os_mkdir p w of
        Inr w1 \<Rightarrow> (Inr (), w1)
      | Inl e \<Rightarrow>
          if exn_cls e = FileNotFoundError
          then (if snd p = [] then (Inl e, w)
                else (case mkdir (parent p) w of
                        (Inl e1, w1) \<Rightarrow> (Inl e1, w1)
                      | (Inr u, w1) \<Rightarrow> mkdir_leaf p w1))
          else mkdir_exist_ok e p w)"
  by pat_completeness auto
termination
  by (relation "measure (\<lambda>(p, w). length (snd p))") (auto simp: parent_def)

declare mkdir.simps [simp del]

text \<open>
  \<open>with open(p, 'w') as f: f.write(text)\<close>. Opening creates the file or truncates it;
  when the write fails after that, the file is left empty.
\<close>

definition write_text :: "path \<Rightarrow> string \<Rightarrow> world \<Rightarrow> (exn + unit) \<times> world" where
  "write_text p text w =
     (case above w (path_str p) p of
        Some e \<Rightarrow> (Inl e, w)
      | None \<Rightarrow>
          (case faults w Sys_open_w p of
             Some e \<Rightarrow> (Inl e, w)
           | None \<Rightarrow>
               (case node_at w p of
                  Some Dir \<Rightarrow>
                    (Inl (os_error IsADirectoryError 21 ''Is a directory'' (path_str p)), w)
                | _ \<Rightarrow>
                    (case faults w Sys_write p of
                       Some e \<Rightarrow> (Inl e, w\<lparr>nodes := (nodes w)(p \<mapsto> File [])\<rparr>)
                     | None \<Rightarrow> (Inr (), w\<lparr>nodes := (nodes w)(p \<mapsto> File text)\<rparr>)))))"

subsection \<open>\<open>json.dump\<close> with an indent\<close>

text \<open>
  The encoder of the \<open>json\<close> module with its defaults (\<open>ensure_ascii\<close>, separators
  \<open>,\<close> and \<open>: \<close>) and an indent: every character outside the printable ASCII range
  is escaped, every item of a non-empty list or dict starts a new line, indented by
  \<open>indent\<close> spaces per level.
\<close>

definition json_escape_char :: "char \<Rightarrow> string" where
  "json_escape_char c =
     (if c = dquote then [backslash, dquote]
      else if c = backslash then [backslash, backslash]
      else if c = CHR 0x0A then [backslash, CHR ''n'']
      else if c = CHR 0x0D then [backslash, CHR ''r'']
      else if c = CHR 0x09 then [backslash, CHR ''t'']
      else if c = CHR 0x0C then [backslash, CHR ''f'']
      else if c = CHR 0x08 then [backslash, CHR ''b'']
      else if 0x20 \<le> (of_char c :: nat) \<and> (of_char c :: nat) \<le> 0x7E then [c]
      else [backslash, CHR ''u'', CHR ''0'', CHR ''0'',
            hex_digit (of_char c div 16), hex_digit (of_char c mod 16)])"

definition json_str :: "string \<Rightarrow> string" where
  "json_str s = dquote # concat (map json_escape_char s) @ [dquote]"

definition newline_indent :: "nat \<Rightarrow> nat \<Rightarrow> string" where
  "newline_indent indent level = CHR 0x0A # replicate (indent * level) CHR '' ''"

fun json_encode :: "nat \<Rightarrow> nat \<Rightarrow> pyval \<Rightarrow> string" where
  "json_encode indent level PyNone = ''null''"
| "json_encode indent level (PyBool b) = (if b then ''true'' else ''false'')"
| "json_encode indent level (PyInt i) = str_of_int i"
| "json_encode indent level (PyStr s) = json_str s"
| "json_encode indent level (PyList xs) =
     (if xs = [] then ''[]''
      else ''['' @ newline_indent indent (level + 1)
           @ intercalate ('','' @ newline_indent indent (level + 1))
               (map (json_encode indent (level + 1)) xs)
           @ newline_indent indent level @ '']'')"
| "json_encode indent level (PyDict kvs) =
     (if kvs = [] then ''{}''
      else ''{'' @ newline_indent indent (level + 1)
           @ intercalate ('','' @ newline_indent indent (level + 1))
               (map (\<lambda>kv. json_str (fst kv) @ '': '' @ json_encode indent (level + 1) (snd kv)) kvs)
           @ newline_indent indent level @ ''}'')"

definition json_dumps :: "nat \<Rightarrow> pyval \<Rightarrow> string" where
  "json_dumps indent v = json_encode indent 0 v"

subsection \<open>\<open>VideoGenerator.generate_video\<close>\<close>

text \<open>The check mark U+2713 of the progress lines, as the three bytes of its UTF-8 form.\<close>

definition check_mark :: string where
  "check_mark = [CHR 0xE2, CHR 0x9C, CHR 0x93]"

definition readme_content :: string where
  \<open>readme_content =
     ''# Video Generation Output\<newline>'' @
     ''\<newline>'' @
     ''## Files Generated\<newline>'' @
     ''\<newline>'' @
     ''- `generation_prompt.txt`: Optimized prompt for video generation services\<newline>'' @
     ''- `metadata.json`: Technical specifications and metadata\<newline>'' @
     ''- `README.md`: This file\<newline>'' @
     ''\<newline>'' @
     ''## Next Steps\<newline>'' @
     ''\<newline>'' @
     ''To generate the actual video, you can use the prompt in `generation_prompt.txt` with:\<newline>'' @
     ''\<newline>'' @
     ''### Option 1: OpenAI Sora (when available)\<newline>'' @
     ''```bash\<newline>'' @
     ''# Use OpenAI's video generation API\<newline>'' @
     ''# API coming soon\<newline>'' @
     ''```\<newline>'' @
     ''\<newline>'' @
     ''### Option 2: Runway Gen-2\<newline>'' @
     ''1. Visit https://runwayml.com/\<newline>'' @
     ''2. Sign up for an account\<newline>'' @
     ''3. Use the "Gen-2" video generation tool\<newline>'' @
     ''4. Paste the prompt from `generation_prompt.txt`\<newline>'' @
     ''5. Adjust duration and settings as needed\<newline>'' @
     ''6. Generate and download your video\<newline>'' @
     ''\<newline>'' @
     ''### Option 3: Stable Video Diffusion\<newline>'' @
     ''```bash\<newline>'' @
     ''# Install Stable Video Diffusion\<newline>'' @
     ''pip install diffusers transformers accelerate\<newline>'' @
     ''\<newline>'' @
     ''# Use the prompt to generate video frames\<newline>'' @
     ''# Then compile into video format\<newline>'' @
     ''```\<newline>'' @
     ''\<newline>'' @
     ''### Option 4: Pika Labs\<newline>'' @
     ''1. Visit https://pika.art/\<newline>'' @
     ''2. Create an account\<newline>'' @
     ''3. Paste the prompt\<newline>'' @
     ''4. Generate your cinematic video\<newline>'' @
     ''\<newline>'' @
     ''## Technical Specifications\<newline>'' @
     ''\<newline>'' @
     ''See `metadata.json` for complete technical specifications including:\<newline>'' @
     ''- Resolution: 1920x1080\<newline>'' @
     ''- Frame Rate: 30 fps\<newline>'' @
     ''- Recommended Duration: 30-60 seconds\<newline>'' @
     ''- Format: MP4 with H.264 codec\<newline>'' @
     ''\<newline>'' @
     ''## Tips for Best Results\<newline>'' @
     ''\<newline>'' @
     ''1. Use the prompt as a starting point and adjust based on the platform\<newline>'' @
     ''2. Consider breaking long prompts into segments for some platforms\<newline>'' @
     ''3. Adjust technical parameters based on platform capabilities\<newline>'' @
     ''4. Review and iterate on the output\<newline>''\<close>

text \<open>The dict that \<open>generate_video\<close> builds as \<open>metadata\<close>, in the order of its keys.\<close>

definition metadata_dict :: "pyval \<Rightarrow> string \<Rightarrow> string \<Rightarrow> pyval" where
  "metadata_dict prompt optimized_prompt output_path =
     PyDict
       [(''original_prompt'', prompt),
        (''optimized_prompt'', PyStr optimized_prompt),
        (''output_path'', PyStr output_path),
        (''status'', PyStr ''ready_for_generation''),
        (''technical_specs'', PyDict
           [(''resolution'', PyStr ''1920x1080''),
            (''fps'', PyInt 30),
            (''duration_seconds'', PyStr ''30-60''),
            (''format'', PyStr ''MP4''),
            (''codec'', PyStr ''H.264'')]),
        (''notes'', PyList
           [PyStr ''This system prepares video generation prompts for AI video generation services'',
            PyStr ''To generate the actual video, use services like:'',
            PyStr (''  - OpenAI'' @ [squote] @ ''s Sora (when available)''),
            PyStr ''  - Runway Gen-2'',
            PyStr (''  - Stability AI'' @ [squote] @ ''s Stable Video Diffusion''),
            PyStr ''  - Pika Labs'',
            PyStr ''  - Other AI video generation platforms''])]"

definition generate_video :: "pyval \<Rightarrow> string \<Rightarrow> world \<Rightarrow> (exn + pyval) \<times> world" where
  "generate_video prompt output_path w0 =
     (let w1 = print (replicate 80 CHR ''='') w0;
          w2 = print ''LANA - Visual Motion Video Generator'' w1;
          w3 = print (replicate 80 CHR ''='') w2;
          w4 = print ''\<newline>Generating video from prompt...'' w3
      in case py_len prompt of
        Inl e \<Rightarrow> (Inl e, w4)
      | Inr n \<Rightarrow>
     (let w5 = print (''\<newline>Prompt length: '' @ str_of_nat n @ '' characters'') w4;
          w6 = print (''Output directory: '' @ output_path) w5
      in case mkdir (Path output_path) w6 of
        (Inl e, w7) \<Rightarrow> (Inl e, w7)
      | (Inr u, w7) \<Rightarrow>
     (let optimized_prompt = generate_video_prompt prompt;
          prompt_file = joinpath (Path output_path) ''generation_prompt.txt''
      in case write_text prompt_file optimized_prompt w7 of
        (Inl e, w8) \<Rightarrow> (Inl e, w8)
      | (Inr u, w8) \<Rightarrow>
     (let w9 = print (''\<newline>'' @ check_mark @ '' Generated prompt saved to: ''
                       @ path_str prompt_file) w8;
          metadata = metadata_dict prompt optimized_prompt output_path;
          metadata_file = joinpath (Path output_path) ''metadata.json''
      in case write_text metadata_file (json_dumps 2 metadata) w9 of
        (Inl e, w10) \<Rightarrow> (Inl e, w10)
      | (Inr u, w10) \<Rightarrow>
     (let w11 = print (check_mark @ '' Metadata saved to: '' @ path_str metadata_file) w10;
          readme_file = joinpath (Path output_path) ''README.md''
      in case write_text readme_file readme_content w11 of
        (Inl e, w12) \<Rightarrow> (Inl e, w12)
      | (Inr u, w12) \<Rightarrow>
     (let w13 = print (check_mark @ '' Instructions saved to: '' @ path_str readme_file) w12;
          w14 = print (''\<newline>'' @ replicate 80 CHR ''='') w13;
          w15 = print (check_mark @ '' Video generation preparation complete!'') w14;
          w16 = print (replicate 80 CHR ''='') w15;
          w17 = print (''\<newline>Output files created in: '' @ output_path @ ''/'') w16;
          w18 = print ''\<newline>Next steps:'' w17;
          w19 = print ''1. Review the generated prompt in generation_prompt.txt'' w18;
          w20 = print ''2. Choose a video generation platform (see README.md)'' w19;
          w21 = print ''3. Use the prompt to generate your cinematic video'' w20;
          w22 = print (''\<newline>'' @ replicate 80 CHR ''='') w21
      in (Inr metadata, w22)))))))"

subsection \<open>\<open>VideoGenerator._load_config\<close> and \<open>VideoGenerator.__init__\<close>\<close>

text \<open>
  \<open>json.load(f)\<close> is \<open>json.loads(f.read())\<close>. The parser is not part of the
  repository: it is the parameter \<open>loads\<close>, which returns the parsed value or the
  exception it raises (\<open>JSONDecodeError\<close> on text that is not valid JSON).
\<close>

definition load_config ::
  "(string \<Rightarrow> exn + pyval) \<Rightarrow> string \<Rightarrow> world \<Rightarrow> (exn + pyval) \<times> world" where
  "load_config loads config_path w =
     (case read_text config_path w of
        Inl e \<Rightarrow>
          if exn_cls e = FileNotFoundError
          then (Inr (PyDict []),
                print (''Warning: Configuration file not found at '' @ config_path) w)
          else (Inl e, w)
      | Inr text \<Rightarrow>
          (case loads text of
             Inl e \<Rightarrow>
               if exn_cls e = JSONDecodeError
               then (Inr (PyDict []),
                     print (''Error: Invalid JSON in configuration file: '' @ exn_str e) w)
               else (Inl e, w)
           | Inr v \<Rightarrow> (Inr v, w)))"

record VideoGenerator =
  config :: pyval
  api_key :: "string option"

definition init ::
  "(string \<Rightarrow> exn + pyval) \<Rightarrow> string option \<Rightarrow> world \<Rightarrow> (exn + VideoGenerator) \<times> world" where
  "init loads config_path w =
     (case (if truthy (arg_val config_path)
            then load_config loads (py_str (arg_val config_path)) w
            else (Inr (PyDict []), w)) of
        (Inl e, w1) \<Rightarrow> (Inl e, w1)
      | (Inr c, w1) \<Rightarrow> (Inr \<lparr>config = c, api_key = environ w1 ''OPENAI_API_KEY''\<rparr>, w1))"

subsection \<open>\<open>main\<close>\<close>

text \<open>
  The parsed command line: \<open>--config\<close> and \<open>--prompt\<close> are \<open>None\<close> when the flag
  is absent, \<open>--output\<close> has the default \<open>output\<close>. \<open>main\<close> returns the exit status
  of the process and the world it leaves.
\<close>

record args =
  args_config :: "string option"
  args_prompt :: "string option"
  args_output :: string

text \<open>\<open>parser.error\<close> prints the usage and the message and exits with status 2.\<close>

definition parser_error :: "string \<Rightarrow> world \<Rightarrow> int \<times> world" where
  "parser_error msg w = (2, w\<lparr>console := console w @ [Usage_error msg]\<rparr>)"

text \<open>An exception that nothing catches: the traceback is printed, the status is 1.\<close>

definition uncaught :: "exn \<Rightarrow> world \<Rightarrow> int \<times> world" where
  "uncaught e w = (1, w\<lparr>console := console w @ [Traceback e]\<rparr>)"

definition main :: "(string \<Rightarrow> exn + pyval) \<Rightarrow> args \<Rightarrow> world \<Rightarrow> int \<times> world" where
  "main loads a w =
     (if \<not> truthy (arg_val (args_config a)) \<and> \<not> truthy (arg_val (args_prompt a))
      then parser_error ''Either --config or --prompt must be provided'' w
      else
     (case init loads (args_config a) w of
        (Inl e, w1) \<Rightarrow> uncaught e w1
      | (Inr generator, w1) \<Rightarrow>
     (case (if truthy (arg_val (args_config a))
            then (case py_get (config generator) ''scene_description'' (PyStr []) of
                    Inl e \<Rightarrow> Inl (uncaught e w1)
                  | Inr prompt \<Rightarrow>
                      if \<not> truthy prompt
                      then Inl (1, print (''Error: No '' @ [squote] @ ''scene_description''
                                          @ [squote] @ '' found in config file'') w1)
                      else Inr prompt)
            else Inr (arg_val (args_prompt a))) of
        Inl exited \<Rightarrow> exited
      | Inr prompt \<Rightarrow>
     (case generate_video prompt (args_output a) w1 of
        (Inr result, w2) \<Rightarrow> (0, w2)
      | (Inl e, w2) \<Rightarrow> (1, print (''\<newline>Error: '' @ exn_str e) w2)))))"

subsection \<open>Names for the output files and sample inputs\<close>

text \<open>The three paths that \<open>generate_video\<close> binds to \<open>prompt_file\<close>, \<open>metadata_file\<close> and \<open>readme_file\<close>.\<close>

abbreviation prompt_file :: "string \<Rightarrow> path" where
  "prompt_file out \<equiv> joinpath (Path out) ''generation_prompt.txt''"

abbreviation metadata_file :: "string \<Rightarrow> path" where
  "metadata_file out \<equiv> joinpath (Path out) ''metadata.json''"

abbreviation readme_file :: "string \<Rightarrow> path" where
  "readme_file out \<equiv> joinpath (Path out) ''README.md''"

text \<open>An empty world: no file, no failure, no environment variable, nothing printed.\<close>

definition world0 :: world where
  "world0 = \<lparr>nodes = Map.empty, faults = (\<lambda>call. Map.empty), environ = Map.empty, console = []\<rparr>"

text \<open>
  \<open>json.loads\<close> on the texts that the examples below read: two documents, and the
  texts that no JSON value can start, which the parser rejects at the first character.
  Any other text is outside the sample, which raises \<open>NotImplementedError\<close> there.
\<close>

definition sample_loads :: "string \<Rightarrow> exn + pyval" where
  \<open>sample_loads text =
     (if text = ''{"scene_description": "A red boat at dawn"}''
      then Inr (PyDict [(''scene_description'', PyStr ''A red boat at dawn'')])
      else if text = ''{}'' then Inr (PyDict [])
      else if text = [] \<or>
              hd text \<notin> set (''"{[-0123456789'' @ [CHR '' '', CHR 0x09, CHR 0x0A, CHR 0x0D]) \<and>
              take 4 text \<noteq> ''null'' \<and> take 4 text \<noteq> ''true'' \<and> take 5 text \<noteq> ''false'' \<and>
              take 3 text \<noteq> ''NaN'' \<and> take 8 text \<noteq> ''Infinity''
      then Inl (Exn JSONDecodeError ''Expecting value: line 1 column 1 (char 0)'')
      else Inl (Exn NotImplementedError ''sample_loads''))\<close>

text \<open>A world whose only file is a configuration with a scene description.\<close>

definition world_with_config :: world where
  \<open>world_with_config =
     world0\<lparr>nodes := [Path ''scene.json'' \<mapsto> File ''{"scene_description": "A red boat at dawn"}'']\<rparr>\<close>

text \<open>
  A world in which the device is full when \<open>metadata.json\<close> of the directory
  \<open>output\<close> is written.
\<close>

definition world_disk_full :: world where
  "world_disk_full =
     world0\<lparr>faults := (\<lambda>call p.
        if call = Sys_write \<and> p = metadata_file ''output''
        then Some (Exn OSError ''[Errno 28] No space left on device'') else None)\<rparr>"



text \<open>
  A world in which the device is full when the directory \<open>b\<close> of the output path
  \<open>a/b\<close> is made.
\<close>

definition world_no_space :: world where
  "world_no_space =
     world0\<lparr>faults := (\<lambda>call p.
        if call = Sys_mkdir \<and> p = Path ''a/b''
        then Some (os_error OSError 28 ''No space left on device'' ''a/b'') else None)\<rparr>"
section \<open>Facts about the model\<close>

subsection \<open>Paths\<close>

lemma print_fields [simp]:
  "nodes (print s w) = nodes w" "faults (print s w) = faults w"
  "environ (print s w) = environ w" "console (print s w) = console w @ [Stdout s]"
  by (simp_all add: print_def)

lemma joinpath_name:
  "joinpath p ''generation_prompt.txt'' = (fst p, snd p @ [''generation_prompt.txt''])"
  "joinpath p ''metadata.json'' = (fst p, snd p @ [''metadata.json''])"
  "joinpath p ''README.md'' = (fst p, snd p @ [''README.md''])"
  by (simp_all add: joinpath_def Path_def splitroot_def)

lemma output_paths_distinct:
  "joinpath p ''generation_prompt.txt'' \<noteq> p"
  "joinpath p ''metadata.json'' \<noteq> p"
  "joinpath p ''README.md'' \<noteq> p"
  "joinpath p ''generation_prompt.txt'' \<noteq> joinpath p ''metadata.json''"
  "joinpath p ''generation_prompt.txt'' \<noteq> joinpath p ''README.md''"
  "joinpath p ''metadata.json'' \<noteq> joinpath p ''README.md''"
  by (cases p; simp add: joinpath_name)+

lemma output_paths_length:
  "length (snd (joinpath p ''generation_prompt.txt'')) = Suc (length (snd p))"
  "length (snd (joinpath p ''metadata.json'')) = Suc (length (snd p))"
  "length (snd (joinpath p ''README.md'')) = Suc (length (snd p))"
  by (simp_all add: joinpath_name)

lemma sample_paths:
  "Path ''output'' = ([], [''output''])" "Path ''tmp1'' = ([], [''tmp1''])"
  "Path ''scene.json'' = ([], [''scene.json''])" "Path ''missing.json'' = ([], [''missing.json''])"
  "Path ''bad.json'' = ([], [''bad.json''])" "Path ''scene.json/x'' = ([], [''scene.json'', ''x''])"
  by (simp_all add: Path_def splitroot_def)

subsection \<open>Looking up a path\<close>

text \<open>The walk reads the nodes of shorter paths only.\<close>

lemma walk_agree:
  assumes "faults w' = faults w"
    and "\<forall>q. length (snd q) < length pre + length cs \<longrightarrow> nodes w' q = nodes w q"
  shows "walk w' s root pre cs = walk w s root pre cs"
  using assms
proof (induction w s root pre cs rule: walk.induct)
  case (3 w s root pre c c' cs)
  have "nodes w' (root, pre @ [c]) = nodes w (root, pre @ [c])"
    using "3.prems"(2) by simp
  moreover have "walk w' s root (pre @ [c]) (c' # cs) = walk w s root (pre @ [c]) (c' # cs)"
    if "nodes w (root, pre @ [c]) = Some Dir" "faults w Sys_lookup (root, pre @ [c]) = None"
    using "3.IH" [OF that(2) that(1) refl] "3.prems" by simp
  ultimately show ?case
    using "3.prems"(1) by (auto split: option.splits node.splits)
qed simp_all

lemma above_agree:
  assumes "faults w' = faults w"
    and "\<forall>q. length (snd q) < length (snd p) \<longrightarrow> nodes w' q = nodes w q"
  shows "above w' s p = above w s p"
  unfolding above_def using assms by (intro walk_agree) simp_all

lemma is_dir_agree:
  assumes "faults w' = faults w"
    and "\<forall>q. length (snd q) \<le> length (snd p) \<longrightarrow> nodes w' q = nodes w q"
  shows "is_dir w' p = is_dir w p"
proof -
  have "above w' (path_str p) p = above w (path_str p) p"
    using assms by (intro above_agree) simp_all
  moreover have "node_at w' p = node_at w p"
    using assms(2) [THEN spec, of p] by (simp add: node_at_def)
  ultimately show ?thesis by (simp add: is_dir_def)
qed

lemma os_mkdir_Inr:
  assumes "os_mkdir p w = Inr w1"
  shows "w1 = w\<lparr>nodes := (nodes w)(p \<mapsto> Dir)\<rparr>" and "above w (path_str p) p = None"
    and "faults w Sys_mkdir p = None" and "nodes w p = None" and "snd p \<noteq> []"
  using assms by (auto simp: os_mkdir_def node_at_def split: option.splits if_splits)

lemma os_mkdir_is_dir: "os_mkdir p w = Inr w1 \<Longrightarrow> is_dir w1 p"
proof -
  assume a: "os_mkdir p w = Inr w1"
  note r = os_mkdir_Inr [OF a]
  have "above w1 (path_str p) p = above w (path_str p) p"
    by (rule above_agree) (auto simp: r(1))
  with r show ?thesis by (auto simp: is_dir_def node_at_def)
qed

lemma os_mkdir_cong:
  assumes "nodes w' = nodes w" and "faults w' = faults w"
  shows "(os_mkdir p w' = Inl e \<longleftrightarrow> os_mkdir p w = Inl e)"
    and "os_mkdir p w' = Inr w1' \<Longrightarrow> os_mkdir p w = Inr w1 \<Longrightarrow> nodes w1' = nodes w1 \<and> faults w1' = faults w1"
proof -
  have ab: "above w' s p = above w s p" for s
    using assms by (intro above_agree) simp_all
  have na: "node_at w' p = node_at w p"
    using assms by (simp add: node_at_def)
  show "(os_mkdir p w' = Inl e \<longleftrightarrow> os_mkdir p w = Inl e)"
    using assms ab na by (auto simp: os_mkdir_def split: option.splits)
  show "os_mkdir p w' = Inr w1' \<Longrightarrow> os_mkdir p w = Inr w1 \<Longrightarrow> nodes w1' = nodes w1 \<and> faults w1' = faults w1"
    using assms by (auto dest!: os_mkdir_Inr(1))
qed

subsection \<open>Making the directory\<close>

lemma mkdir_step:
  "mkdir p w =
     (if (\<exists>e. os_mkdir p w = Inl e \<and> exn_cls e = FileNotFoundError) \<and> snd p \<noteq> []
      then (case mkdir (parent p) w of
              (Inl e1, w1) \<Rightarrow> (Inl e1, w1)
            | (Inr u, w1) \<Rightarrow> mkdir_leaf p w1)
      else mkdir_leaf p w)"
  by (subst mkdir.simps) (auto simp: mkdir_leaf_def split: sum.splits)

lemma mkdir_leaf_props:
  assumes "mkdir_leaf p w = (r, wa)"
  shows "faults wa = faults w"
    and "r = Inr () \<Longrightarrow> is_dir wa p"
    and "r = Inr () \<Longrightarrow> faults w Sys_mkdir p = Some e \<Longrightarrow>
           is_os_error (exn_cls e) \<and> exn_cls e \<noteq> FileNotFoundError"
    and "nodes wa q = Some (File t) \<longleftrightarrow> nodes w q = Some (File t)"
    and "r = Inl e' \<Longrightarrow> wa = w"
    and "q \<noteq> p \<Longrightarrow> nodes wa q = nodes w q"
proof -
  show "q \<noteq> p \<Longrightarrow> nodes wa q = nodes w q"
    using assms by (auto simp: mkdir_leaf_def mkdir_exist_ok_def split: sum.splits if_splits
        dest!: os_mkdir_Inr(1))
  show "faults wa = faults w"
    using assms by (auto simp: mkdir_leaf_def mkdir_exist_ok_def split: sum.splits if_splits
        dest!: os_mkdir_Inr(1))
  show "r = Inr () \<Longrightarrow> is_dir wa p"
    using assms by (auto simp: mkdir_leaf_def mkdir_exist_ok_def split: sum.splits if_splits
        dest: os_mkdir_is_dir)
  show "r = Inr () \<Longrightarrow> faults w Sys_mkdir p = Some e \<Longrightarrow>
           is_os_error (exn_cls e) \<and> exn_cls e \<noteq> FileNotFoundError"
    using assms by (auto simp: mkdir_leaf_def mkdir_exist_ok_def os_mkdir_def is_dir_def
        split: sum.splits if_splits option.splits)
  show "nodes wa q = Some (File t) \<longleftrightarrow> nodes w q = Some (File t)"
  proof (cases "os_mkdir p w")
    case (Inl e)
    with assms show ?thesis
      by (auto simp: mkdir_leaf_def mkdir_exist_ok_def split: if_splits)
  next
    case (Inr w1)
    from os_mkdir_Inr(1,4) [OF Inr] Inr assms show ?thesis
      by (auto simp: mkdir_leaf_def split: if_splits)
  qed
  show "r = Inl e' \<Longrightarrow> wa = w"
    using assms by (auto simp: mkdir_leaf_def mkdir_exist_ok_def split: sum.splits if_splits)
qed

lemma mkdir_leaf_cong:
  assumes "nodes w' = nodes w" and "faults w' = faults w"
  shows "fst (mkdir_leaf p w') = fst (mkdir_leaf p w)"
    and "nodes (snd (mkdir_leaf p w')) = nodes (snd (mkdir_leaf p w))"
proof -
  note c = os_mkdir_cong [OF assms]
  have d: "is_dir w' p = is_dir w p"
    using assms by (intro is_dir_agree) simp_all
  show "fst (mkdir_leaf p w') = fst (mkdir_leaf p w)"
  proof (cases "os_mkdir p w")
    case (Inl e)
    with c(1) [of p e] d show ?thesis
      by (simp add: mkdir_leaf_def mkdir_exist_ok_def)
  next
    case (Inr w1)
    with c(1) [of p] obtain w1' where "os_mkdir p w' = Inr w1'"
      by (cases "os_mkdir p w'") auto
    with Inr show ?thesis by (simp add: mkdir_leaf_def)
  qed
  show "nodes (snd (mkdir_leaf p w')) = nodes (snd (mkdir_leaf p w))"
  proof (cases "os_mkdir p w")
    case (Inl e)
    with c(1) [of p e] d assms show ?thesis
      by (simp add: mkdir_leaf_def mkdir_exist_ok_def)
  next
    case (Inr w1)
    with c(1) [of p] obtain w1' where w1': "os_mkdir p w' = Inr w1'"
      by (cases "os_mkdir p w'") auto
    with Inr c(2) [OF w1' Inr] show ?thesis by (simp add: mkdir_leaf_def)
  qed
qed

lemma mkdir_faults: "faults (snd (mkdir p w)) = faults w"
proof (induction p w rule: mkdir.induct)
  case (1 p w)
  show ?case
  proof (cases "(\<exists>e. os_mkdir p w = Inl e \<and> exn_cls e = FileNotFoundError) \<and> snd p \<noteq> []")
    case False
    then have m: "mkdir p w = mkdir_leaf p w"
      by (subst mkdir_step) (simp only: if_False)
    obtain r wa where l: "mkdir_leaf p w = (r, wa)" by fastforce
    from mkdir_leaf_props(1) [OF l] l m show ?thesis by simp
  next
    case True
    then obtain e where e: "os_mkdir p w = Inl e" "exn_cls e = FileNotFoundError" "snd p \<noteq> []"
      by blast
    note ih = "1.IH" [OF e]
    obtain r1 w1 where par: "mkdir (parent p) w = (r1, w1)" by fastforce
    have m: "mkdir p w = (case r1 of Inl e1 \<Rightarrow> (Inl e1, w1) | Inr u \<Rightarrow> mkdir_leaf p w1)"
      using True par by (simp add: mkdir_step [of p w] split: sum.splits)
    obtain r wa where l: "mkdir_leaf p w1 = (r, wa)" by fastforce
    from mkdir_leaf_props(1) [OF l] l m ih par show ?thesis
      by (cases r1) simp_all
  qed
qed

lemma mkdir_props:
  "faults (snd (mkdir p w)) = faults w \<and>
   (fst (mkdir p w) = Inr () \<longrightarrow> is_dir (snd (mkdir p w)) p) \<and>
   (fst (mkdir p w) = Inr () \<longrightarrow>
      (\<forall>e. faults w Sys_mkdir p = Some e \<longrightarrow>
         is_os_error (exn_cls e) \<and> exn_cls e \<noteq> FileNotFoundError)) \<and>
   (\<forall>q t. nodes (snd (mkdir p w)) q = Some (File t) \<longleftrightarrow> nodes w q = Some (File t)) \<and>
   (\<forall>q. length (snd p) < length (snd q) \<longrightarrow> nodes (snd (mkdir p w)) q = nodes w q) \<and>
   (\<forall>w'. nodes w' = nodes w \<and> faults w' = faults w \<longrightarrow>
      fst (mkdir p w') = fst (mkdir p w) \<and>
      nodes (snd (mkdir p w')) = nodes (snd (mkdir p w)))"
proof (induction p w rule: mkdir.induct)
  case (1 p w)
  show ?case
  proof (cases "(\<exists>e. os_mkdir p w = Inl e \<and> exn_cls e = FileNotFoundError) \<and> snd p \<noteq> []")
    case False
    then have m: "mkdir p w = mkdir_leaf p w"
      by (subst mkdir_step) (simp only: if_False)
    have m': "mkdir p w' = mkdir_leaf p w'" if "nodes w' = nodes w \<and> faults w' = faults w" for w'
    proof -
      from False os_mkdir_cong(1) [of w' w p] that
      have "\<not> ((\<exists>e. os_mkdir p w' = Inl e \<and> exn_cls e = FileNotFoundError) \<and> snd p \<noteq> [])"
        by auto
      then show ?thesis
        by (subst mkdir_step) (simp only: if_False)
    qed
    obtain r wa where l: "mkdir_leaf p w = (r, wa)" by fastforce
    note lp = mkdir_leaf_props [OF l]
    have far: "nodes wa q = nodes w q" if "length (snd p) < length (snd q)" for q
      using that by (intro lp(6)) auto
    show ?thesis
      unfolding m using lp(1-5) far l m' mkdir_leaf_cong [of _ w p]
      by (auto simp del: split_paired_All)
  next
    case True
    then obtain e where e: "os_mkdir p w = Inl e" "exn_cls e = FileNotFoundError" "snd p \<noteq> []"
      by blast
    note ih = "1.IH" [OF e]
    obtain r1 w1 where par: "mkdir (parent p) w = (r1, w1)" by fastforce
    have m: "mkdir p w = (case r1 of Inl e1 \<Rightarrow> (Inl e1, w1) | Inr u \<Rightarrow> mkdir_leaf p w1)"
      using True par by (simp add: mkdir_step [of p w] split: sum.splits)
    from ih par have f1: "faults w1 = faults w" by simp
    from ih par have files1: "nodes w1 q = Some (File t) \<longleftrightarrow> nodes w q = Some (File t)" for q t
      by (simp del: split_paired_All)
    from ih par have far1: "nodes w1 q = nodes w q" if "length (snd p) < length (snd q)" for q
      using that by (simp add: parent_def del: split_paired_All)
    have cong: "fst (mkdir p w') = fst (mkdir p w) \<and>
        nodes (snd (mkdir p w')) = nodes (snd (mkdir p w))"
      if w': "nodes w' = nodes w \<and> faults w' = faults w" for w'
    proof -
      from True os_mkdir_cong(1) [of w' w p] w'
      have t': "(\<exists>e. os_mkdir p w' = Inl e \<and> exn_cls e = FileNotFoundError) \<and> snd p \<noteq> []"
        by auto
      obtain r1' w1' where par': "mkdir (parent p) w' = (r1', w1')" by fastforce
      have m': "mkdir p w' = (case r1' of Inl e1 \<Rightarrow> (Inl e1, w1') | Inr u \<Rightarrow> mkdir_leaf p w1')"
        using t' par' by (simp add: mkdir_step [of p w'] split: sum.splits)
      from ih w' par par' have r: "r1' = r1" "nodes w1' = nodes w1"
        by (auto simp del: split_paired_All)
      have "faults (snd (mkdir (parent p) w')) = faults w'"
        by (rule mkdir_faults)
      with par' w' f1 have f1': "faults w1' = faults w1" by simp
      show ?thesis
      proof (cases r1)
        case (Inl e1)
        with m m' r show ?thesis by simp
      next
        case (Inr u)
        with m m' r mkdir_leaf_cong [OF r(2) f1', of p] show ?thesis by simp
      qed
    qed
    show ?thesis
    proof (cases r1)
      case (Inl e1)
      with m f1 files1 far1 cong show ?thesis
        by (simp del: split_paired_All)
    next
      case (Inr u)
      obtain r wa where l: "mkdir_leaf p w1 = (r, wa)" by fastforce
      note lp = mkdir_leaf_props [OF l]
      from Inr m l have mm: "mkdir p w = (r, wa)" by simp
      have far: "nodes wa q = nodes w q" if "length (snd p) < length (snd q)" for q
        using that far1 [of q] lp(6) [of q] by auto
      show ?thesis
        unfolding mm using lp(1-5) far f1 files1 cong [unfolded mm]
        by (auto simp del: split_paired_All)
    qed
  qed
qed

lemma mkdir_result:
  assumes "mkdir p w = (r, wa)"
  shows "faults wa = faults w"
    and "r = Inr () \<Longrightarrow> is_dir wa p"
    and "r = Inr () \<Longrightarrow> faults w Sys_mkdir p = Some e \<Longrightarrow>
           is_os_error (exn_cls e) \<and> exn_cls e \<noteq> FileNotFoundError"
    and "nodes wa q = Some (File t) \<longleftrightarrow> nodes w q = Some (File t)"
    and "length (snd p) < length (snd q) \<Longrightarrow> nodes wa q = nodes w q"
proof -
  from assms have fs: "fst (mkdir p w) = r" "snd (mkdir p w) = wa"
    by simp_all
  note mp = mkdir_props [of p w, unfolded fs]
  from mp show "faults wa = faults w" by blast
  from mp show "r = Inr () \<Longrightarrow> is_dir wa p" by blast
  from mp show "r = Inr () \<Longrightarrow> faults w Sys_mkdir p = Some e \<Longrightarrow>
           is_os_error (exn_cls e) \<and> exn_cls e \<noteq> FileNotFoundError" by blast
  from mp show "nodes wa q = Some (File t) \<longleftrightarrow> nodes w q = Some (File t)" by blast
  from mp show "length (snd p) < length (snd q) \<Longrightarrow> nodes wa q = nodes w q" by blast
qed

lemma mkdir_cong:
  assumes "nodes w' = nodes w" and "faults w' = faults w"
  shows "fst (mkdir p w') = fst (mkdir p w)"
    and "nodes (snd (mkdir p w')) = nodes (snd (mkdir p w))"
  using mkdir_props [of p w] assms by blast+

text \<open>On a directory that is there, \<open>mkdir\<close> with \<open>exist_ok\<close> does nothing.\<close>

lemma mkdir_again:
  assumes "is_dir w p"
    and "\<forall>e. faults w Sys_mkdir p = Some e \<longrightarrow>
           is_os_error (exn_cls e) \<and> exn_cls e \<noteq> FileNotFoundError"
  shows "mkdir p w = (Inr (), w)"
  using assms
  by (subst mkdir.simps)
     (auto simp: os_mkdir_def is_dir_def mkdir_exist_ok_def os_error_def is_os_error_def
           split: option.splits)

lemma mkdir_fresh: "os_mkdir p w = Inr w1 \<Longrightarrow> mkdir p w = (Inr (), w1)"
  by (subst mkdir.simps) simp

subsection \<open>Writing a file\<close>

lemma write_text_Inr_iff:
  "fst (write_text p t w) = Inr () \<longleftrightarrow>
     above w (path_str p) p = None \<and> faults w Sys_open_w p = None \<and>
     node_at w p \<noteq> Some Dir \<and> faults w Sys_write p = None"
  by (auto simp: write_text_def split: option.splits node.splits)

lemma write_text_result:
  assumes "write_text p t w = (r, w1)"
  shows "faults w1 = faults w"
    and "q \<noteq> p \<Longrightarrow> nodes w1 q = nodes w q"
    and "r = Inr () \<Longrightarrow> nodes w1 p = Some (File t)"
  using assms by (auto simp: write_text_def split: option.splits node.splits)

text \<open>Whether a write succeeds is decided by the directories above the file and the file itself.\<close>

lemma write_text_agree:
  assumes "faults w' = faults w"
    and "\<forall>q. length (snd q) < length (snd p) \<longrightarrow> nodes w' q = nodes w q"
    and "nodes w' p = nodes w p"
  shows "fst (write_text p t w') = fst (write_text p t w)"
proof -
  have "above w' (path_str p) p = above w (path_str p) p"
    using assms(1,2) by (rule above_agree)
  moreover have "node_at w' p = node_at w p"
    using assms(3) by (simp add: node_at_def)
  ultimately show ?thesis
    using assms(1) by (simp add: write_text_def split: option.splits node.splits)
qed

subsection \<open>What \<open>generate_video\<close> returns and leaves behind\<close>

lemma gv_len: "generate_video prompt out w = (Inr m, w1) \<Longrightarrow> \<exists>n. py_len prompt = Inr n"
  by (cases "py_len prompt") (simp_all add: generate_video_def Let_def)

text \<open>
  Every run of \<open>generate_video\<close> on a prompt that has a length ends in one of five ways:
  one of the four file system operations raises, or all succeed. Whether the directory can
  be made is decided by the first world, and whether a file can be written by the world
  that making the directory leaves: the lines printed in between and the files written
  before do not change it.
\<close>

lemma gv_outcome:
  assumes gv: "generate_video prompt out w = (r, w1)" and len: "py_len prompt = Inr n"
  defines "d \<equiv> Path out"
    and "f1 \<equiv> joinpath (Path out) ''generation_prompt.txt''"
    and "f2 \<equiv> joinpath (Path out) ''metadata.json''"
    and "f3 \<equiv> joinpath (Path out) ''README.md''"
    and "c1 \<equiv> generate_video_prompt prompt"
    and "c2 \<equiv> json_dumps 2 (metadata_dict prompt (generate_video_prompt prompt) out)"
    and "wm \<equiv> snd (mkdir (Path out) w)"
  shows "faults w1 = faults w \<and> (\<forall>q. q \<notin> {f1, f2, f3} \<longrightarrow> nodes w1 q = nodes wm q) \<and>
    ((\<exists>e. r = Inl e \<and> fst (mkdir d w) = Inl e \<and> nodes w1 = nodes wm)
     \<or> (\<exists>e. r = Inl e \<and> fst (mkdir d w) = Inr () \<and> fst (write_text f1 c1 wm) = Inl e \<and>
             nodes w1 f2 = nodes w f2 \<and> nodes w1 f3 = nodes w f3)
     \<or> (\<exists>e. r = Inl e \<and> fst (mkdir d w) = Inr () \<and> fst (write_text f1 c1 wm) = Inr () \<and>
             fst (write_text f2 c2 wm) = Inl e \<and>
             nodes w1 f1 = Some (File c1) \<and> nodes w1 f3 = nodes w f3)
     \<or> (\<exists>e. r = Inl e \<and> fst (mkdir d w) = Inr () \<and> fst (write_text f1 c1 wm) = Inr () \<and>
             fst (write_text f2 c2 wm) = Inr () \<and> fst (write_text f3 readme_content wm) = Inl e \<and>
             nodes w1 f1 = Some (File c1) \<and> nodes w1 f2 = Some (File c2))
     \<or> (r = Inr (metadata_dict prompt (generate_video_prompt prompt) out) \<and>
          fst (mkdir d w) = Inr () \<and> fst (write_text f1 c1 wm) = Inr () \<and>
          fst (write_text f2 c2 wm) = Inr () \<and> fst (write_text f3 readme_content wm) = Inr () \<and>
          nodes w1 f1 = Some (File c1) \<and> nodes w1 f2 = Some (File c2) \<and>
          nodes w1 f3 = Some (File readme_content)))"
proof -
  note ds = output_paths_distinct [of "Path out", folded d_def f1_def f2_def f3_def]
  note ls = output_paths_length [of "Path out", folded d_def f1_def f2_def f3_def]
  note defs = d_def f1_def f2_def f3_def c1_def c2_def
  define pw where "pw = print (''Output directory: '' @ out)
      (print (''\<newline>Prompt length: '' @ str_of_nat n @ '' characters'')
        (print ''\<newline>Generating video from prompt...''
          (print (replicate 80 CHR ''='')
            (print ''LANA - Visual Motion Video Generator''
              (print (replicate 80 CHR ''='') w)))))"
  have pw: "nodes pw = nodes w" "faults pw = faults w"
    by (simp_all add: pw_def)
  obtain r0 wa where mk: "mkdir d pw = (r0, wa)"
    by fastforce
  obtain rm where mkw: "mkdir d w = (rm, wm)"
    unfolding wm_def d_def by (cases "mkdir (Path out) w") simp
  from mkdir_cong [OF pw, of d] mk mkw
  have a: "fst (mkdir d w) = r0" "nodes wa = nodes wm"
    by simp_all
  from mkdir_result(1) [OF mk] mkdir_result(1) [OF mkw] pw
  have fa: "faults wa = faults w" "faults wm = faults w"
    by simp_all
  have far: "nodes wm q = nodes w q" if "length (snd d) < length (snd q)" for q
    using mkdir_result(5) [OF mkw that] .
  from far ls have a': "nodes wm f1 = nodes w f1" "nodes wm f2 = nodes w f2" "nodes wm f3 = nodes w f3"
    by simp_all
  have short: "q \<noteq> f1 \<and> q \<noteq> f2 \<and> q \<noteq> f3" if "length (snd q) < Suc (length (snd d))" for q
    using that ls by auto
  show ?thesis
  proof (cases r0)
    case (Inl e)
    with gv len mk have "r = Inl e \<and> w1 = wa"
      by (simp add: generate_video_def Let_def defs pw_def)
    with a fa Inl show ?thesis by simp
  next
    case r0: (Inr u0)
    obtain r1 wb where wr1: "write_text f1 c1 wa = (r1, wb)"
      by fastforce
    have "fst (write_text f1 c1 wa) = fst (write_text f1 c1 wm)"
      using a fa by (intro write_text_agree) simp_all
    with wr1 have b: "fst (write_text f1 c1 wm) = r1"
      by simp
    note b' = write_text_result [OF wr1]
    have bn: "nodes wb q = nodes wm q" if "q \<noteq> f1" for q
      using b'(2) [OF that] a by simp
    show ?thesis
    proof (cases r1)
      case (Inl e)
      with gv len mk wr1 r0 have "r = Inl e \<and> w1 = wb"
        by (simp add: generate_video_def Let_def defs pw_def)
      with a a' fa b b'(1,3) bn r0 Inl ds show ?thesis by auto
    next
      case r1: (Inr u1)
      define pb where "pb = print (''\<newline>'' @ check_mark @ '' Generated prompt saved to: '' @ path_str f1) wb"
      obtain r2 wc where wr2: "write_text f2 c2 pb = (r2, wc)"
        by fastforce
      have "nodes pb q = nodes wm q" if "length (snd q) < length (snd f2)" for q
        using short [of q] that ls bn [of q] by (simp add: pb_def)
      moreover have "nodes pb f2 = nodes wm f2" "faults pb = faults wm"
        using bn [of f2] ds b'(1) fa by (simp_all add: pb_def)
      ultimately have "fst (write_text f2 c2 pb) = fst (write_text f2 c2 wm)"
        by (intro write_text_agree) (simp_all del: split_paired_All)
      with wr2 have c: "fst (write_text f2 c2 wm) = r2"
        by simp
      note c' = write_text_result [OF wr2]
      have cn: "nodes wc q = nodes wb q" if "q \<noteq> f2" for q
        using c'(2) [OF that] by (simp add: pb_def)
      have cf: "faults wc = faults w"
        using c'(1) b'(1) fa by (simp add: pb_def)
      show ?thesis
      proof (cases r2)
        case (Inl e)
        with gv len mk wr1 wr2 r0 r1 have "r = Inl e \<and> w1 = wc"
          by (simp add: generate_video_def Let_def defs pw_def pb_def)
        with a a' cf b b'(3) bn c c'(3) cn r0 r1 Inl ds show ?thesis by auto
      next
        case r2: (Inr u2)
        define pc where "pc = print (check_mark @ '' Metadata saved to: '' @ path_str f2) wc"
        obtain r3 wd where wr3: "write_text f3 readme_content pc = (r3, wd)"
          by fastforce
        have "nodes pc q = nodes wm q" if "length (snd q) < length (snd f3)" for q
          using short [of q] that ls bn [of q] cn [of q] by (simp add: pc_def)
        moreover have "nodes pc f3 = nodes wm f3" "faults pc = faults wm"
          using bn [of f3] cn [of f3] ds cf fa by (simp_all add: pc_def)
        ultimately have "fst (write_text f3 readme_content pc) = fst (write_text f3 readme_content wm)"
          by (intro write_text_agree) (simp_all del: split_paired_All)
        with wr3 have d: "fst (write_text f3 readme_content wm) = r3"
          by simp
        note d' = write_text_result [OF wr3]
        have dn: "nodes wd q = nodes wc q" if "q \<noteq> f3" for q
          using d'(2) [OF that] by (simp add: pc_def)
        have df: "faults wd = faults w"
          using d'(1) cf by (simp add: pc_def)
        show ?thesis
        proof (cases r3)
          case (Inl e)
          with gv len mk wr1 wr2 wr3 r0 r1 r2 have "r = Inl e \<and> w1 = wd"
            by (simp add: generate_video_def Let_def defs pw_def pb_def pc_def)
          with a a' df b b'(3) bn c c'(3) cn d d'(3) dn r0 r1 r2 Inl ds show ?thesis by auto
        next
          case r3: (Inr u3)
          with gv len mk wr1 wr2 wr3 r0 r1 r2
          have "r = Inr (metadata_dict prompt (generate_video_prompt prompt) out) \<and>
                faults w1 = faults wd \<and> nodes w1 = nodes wd"
            by (auto simp add: generate_video_def Let_def defs pw_def pb_def pc_def)
          with a a' df b b'(3) bn c c'(3) cn d d'(3) dn r0 r1 r2 r3 ds show ?thesis by auto
        qed
      qed
    qed
  qed
qed

lemma gv_Inr:
  assumes "generate_video prompt out w = (Inr m, w1)"
  shows "m = metadata_dict prompt (generate_video_prompt prompt) out"
    and "faults w1 = faults w"
    and "\<forall>q. q \<notin> {prompt_file out, metadata_file out, readme_file out} \<longrightarrow>
           nodes w1 q = nodes (snd (mkdir (Path out) w)) q"
    and "fst (mkdir (Path out) w) = Inr ()"
    and "nodes w1 (prompt_file out) = Some (File (generate_video_prompt prompt))"
    and "nodes w1 (metadata_file out) = Some (File (json_dumps 2 m))"
    and "nodes w1 (readme_file out) = Some (File readme_content)"
    and "fst (write_text (prompt_file out) t1 (snd (mkdir (Path out) w))) = Inr ()"
    and "fst (write_text (metadata_file out) t2 (snd (mkdir (Path out) w))) = Inr ()"
    and "fst (write_text (readme_file out) t3 (snd (mkdir (Path out) w))) = Inr ()"
proof -
  from gv_len [OF assms] obtain n where len: "py_len prompt = Inr n" ..
  note o = gv_outcome [OF assms len]
  from o show "m = metadata_dict prompt (generate_video_prompt prompt) out" by auto
  from o show "faults w1 = faults w" by simp
  from o show "\<forall>q. q \<notin> {prompt_file out, metadata_file out, readme_file out} \<longrightarrow>
           nodes w1 q = nodes (snd (mkdir (Path out) w)) q" by blast
  from o show "fst (mkdir (Path out) w) = Inr ()" by auto
  from o show "nodes w1 (prompt_file out) = Some (File (generate_video_prompt prompt))" by auto
  from o show "nodes w1 (metadata_file out) = Some (File (json_dumps 2 m))" by auto
  from o show "nodes w1 (readme_file out) = Some (File readme_content)" by auto
  from o have "fst (write_text (prompt_file out) (generate_video_prompt prompt)
      (snd (mkdir (Path out) w))) = Inr ()" by auto
  then show "fst (write_text (prompt_file out) t1 (snd (mkdir (Path out) w))) = Inr ()"
    by (simp add: write_text_Inr_iff)
  from o have "fst (write_text (metadata_file out)
      (json_dumps 2 (metadata_dict prompt (generate_video_prompt prompt) out))
      (snd (mkdir (Path out) w))) = Inr ()" by auto
  then show "fst (write_text (metadata_file out) t2 (snd (mkdir (Path out) w))) = Inr ()"
    by (simp add: write_text_Inr_iff)
  from o have "fst (write_text (readme_file out) readme_content (snd (mkdir (Path out) w))) = Inr ()"
    by auto
  then show "fst (write_text (readme_file out) t3 (snd (mkdir (Path out) w))) = Inr ()"
    by (simp add: write_text_Inr_iff)
qed

lemma gv_succeeds:
  assumes "py_len prompt = Inr n"
    and "fst (mkdir (Path out) w) = Inr ()"
    and "fst (write_text (prompt_file out) t1 (snd (mkdir (Path out) w))) = Inr ()"
    and "fst (write_text (metadata_file out) t2 (snd (mkdir (Path out) w))) = Inr ()"
    and "fst (write_text (readme_file out) t3 (snd (mkdir (Path out) w))) = Inr ()"
  shows "\<exists>w1. generate_video prompt out w =
           (Inr (metadata_dict prompt (generate_video_prompt prompt) out), w1)"
proof -
  obtain r w1 where gv: "generate_video prompt out w = (r, w1)" by fastforce
  from assms(3-5) have
    "fst (write_text (prompt_file out) (generate_video_prompt prompt)
       (snd (mkdir (Path out) w))) = Inr ()"
    "fst (write_text (metadata_file out)
      (json_dumps 2 (metadata_dict prompt (generate_video_prompt prompt) out))
      (snd (mkdir (Path out) w))) = Inr ()"
    "fst (write_text (readme_file out) readme_content (snd (mkdir (Path out) w))) = Inr ()"
    by (simp_all add: write_text_Inr_iff)
  with gv_outcome [OF gv assms(1)] assms(2) gv show ?thesis by auto
qed

text \<open>
  A run succeeds when the output directory is one new name in the current directory and
  nothing fails.
\<close>

lemma gv_fresh:
  assumes len: "py_len prompt = Inr n"
    and one: "snd (Path out) = [c]"
    and new: "nodes w (Path out) = None"
    and nodir: "\<forall>q. nodes w q \<noteq> Some Dir"
    and nofault: "faults w = (\<lambda>call. Map.empty)"
  shows "\<exists>w1. generate_video prompt out w =
           (Inr (metadata_dict prompt (generate_video_prompt prompt) out), w1)"
proof -
  define wm where "wm = w\<lparr>nodes := (nodes w)(Path out \<mapsto> Dir)\<rparr>"
  have "os_mkdir (Path out) w = Inr wm"
    using one new nofault by (simp add: os_mkdir_def above_def node_at_def wm_def)
  then have mk: "mkdir (Path out) w = (Inr (), wm)"
    by (rule mkdir_fresh)
  have p: "Path out = (fst (Path out), [c])"
    using one by (cases "Path out") simp
  have wr: "fst (write_text (joinpath (Path out) name) t wm) = Inr ()"
    if "joinpath (Path out) name = (fst (Path out), snd (Path out) @ [name])" for name t
  proof -
    have "joinpath (Path out) name \<noteq> Path out"
      using that by (cases "Path out") simp
    moreover have "nodes w (joinpath (Path out) name) \<noteq> Some Dir"
      using nodir by (simp del: split_paired_All)
    moreover have "nodes wm (fst (Path out), [c]) = Some Dir"
      using p by (simp add: wm_def)
    ultimately show ?thesis
      using nofault one that
      by (simp add: write_text_Inr_iff above_def node_at_def wm_def)
  qed
  show ?thesis
    using mk wr [OF joinpath_name(1)] wr [OF joinpath_name(2)] wr [OF joinpath_name(3)]
    by (intro gv_succeeds [OF len]) simp_all
qed

lemma gv_world0:
  "py_len prompt = Inr n \<Longrightarrow> snd (Path out) = [c] \<Longrightarrow>
   \<exists>w1. generate_video prompt out world0 =
      (Inr (metadata_dict prompt (generate_video_prompt prompt) out), w1)"
  by (rule gv_fresh) (simp_all add: world0_def)

subsection \<open>The two ways of \<open>main\<close> to its prompt\<close>


lemma main_config_route:
  assumes "args_config a = Some c" and "c \<noteq> []"
    and "load_config loads c w = (Inr cfg, w1)"
    and "py_get cfg ''scene_description'' (PyStr []) = Inr v"
  shows "main loads a w =
    (if truthy v
     then (case generate_video v (args_output a) w1 of
             (Inr result, w2) \<Rightarrow> (0, w2)
           | (Inl e, w2) \<Rightarrow> (1, print (''\<newline>Error: '' @ exn_str e) w2))
     else (1, print (''Error: No '' @ [squote] @ ''scene_description'' @ [squote]
                      @ '' found in config file'') w1))"
  using assms by (simp add: main_def init_def)

lemma main_prompt_route:
  assumes "\<not> truthy (arg_val (args_config a))" and "truthy (arg_val (args_prompt a))"
  shows "main loads a w =
    (case generate_video (arg_val (args_prompt a)) (args_output a) w of
       (Inr result, w2) \<Rightarrow> (0, w2)
     | (Inl e, w2) \<Rightarrow> (1, print (''\<newline>Error: '' @ exn_str e) w2))"
  using assms by (simp add: main_def init_def)

lemma main_empty_config_path:
  "s \<noteq> [] \<Longrightarrow> snd (Path out) = [c] \<Longrightarrow>
   \<exists>w1. main loads \<lparr>args_config = Some [], args_prompt = Some s, args_output = out\<rparr> world0 = (0, w1) \<and>
     generate_video (PyStr s) out world0 =
       (Inr (metadata_dict (PyStr s) (generate_video_prompt (PyStr s)) out), w1)"
proof -
  assume s: "s \<noteq> []" and c: "snd (Path out) = [c]"
  from gv_world0 [of "PyStr s" "length s" out c] c
  obtain w1 where gv: "generate_video (PyStr s) out world0 =
       (Inr (metadata_dict (PyStr s) (generate_video_prompt (PyStr s)) out), w1)"
    by auto
  from main_prompt_route [of "\<lparr>args_config = Some [], args_prompt = Some s, args_output = out\<rparr>"
      loads world0] s gv
  show ?thesis by simp
qed

section \<open>Properties\<close>

subsection \<open>The prompt template\<close>

lemma sublist_in_template: "sublist s (a @ b @ c @ s @ d)"
  by (metis append.assoc sublist_appendI)

text \<open>
  Claim C1. For every non-empty scene description \<open>s\<close>, \<open>generate_video_prompt\<close>
  returns a non-empty text that contains \<open>s\<close> as a contiguous part.
\<close>

theorem generate_video_prompt_contains:
  "s \<noteq> [] \<Longrightarrow>
     generate_video_prompt (PyStr s) \<noteq> [] \<and> sublist s (generate_video_prompt (PyStr s))"
  unfolding generate_video_prompt_def py_str.simps
  by (intro conjI sublist_in_template) simp

theorem generate_video_prompt_contains_witness:
  "''A red boat at dawn'' \<noteq> [] \<and>
   generate_video_prompt (PyStr ''A red boat at dawn'') \<noteq> [] \<and>
   sublist ''A red boat at dawn'' (generate_video_prompt (PyStr ''A red boat at dawn''))"
  using generate_video_prompt_contains [of "''A red boat at dawn''"] by simp

subsection \<open>Determinism of the output files\<close>

text \<open>
  Claim C2. \<open>generate_video\<close> is idempotent on file contents. When a run succeeds, a
  second run with the same inputs in the world the first one left succeeds too, returns
  the same metadata and leaves the whole file system as it was, so the three files have
  the same content both times. The content depends on the inputs only: any other
  successful run with the same prompt and output path, from any world, leaves the same
  three files.
\<close>

theorem generate_video_idempotent:
  assumes "generate_video prompt out w = (Inr m, w1)"
  shows "(\<exists>w2. generate_video prompt out w1 = (Inr m, w2) \<and> nodes w2 = nodes w1) \<and>
         (\<forall>w' m' w1'. generate_video prompt out w' = (Inr m', w1') \<longrightarrow>
            m' = m \<and>
            nodes w1' (prompt_file out) = nodes w1 (prompt_file out) \<and>
            nodes w1' (metadata_file out) = nodes w1 (metadata_file out) \<and>
            nodes w1' (readme_file out) = nodes w1 (readme_file out)) \<and>
         (\<exists>t1 t2 t3. nodes w1 (prompt_file out) = Some (File t1) \<and>
            nodes w1 (metadata_file out) = Some (File t2) \<and>
            nodes w1 (readme_file out) = Some (File t3))"
proof (intro conjI allI impI)
  note r1 = gv_Inr [OF assms]
  note ls = output_paths_length [of "Path out"]
  from gv_len [OF assms] obtain n where len: "py_len prompt = Inr n" ..
  obtain wm where mkw: "mkdir (Path out) w = (Inr (), wm)"
    using r1(4) by (cases "mkdir (Path out) w") simp
  note mr = mkdir_result [OF mkw]
  have low: "nodes w1 q = nodes wm q" if "length (snd q) \<le> length (snd (Path out))" for q
  proof -
    from that ls have "q \<notin> {prompt_file out, metadata_file out, readme_file out}"
      by auto
    with r1(3) mkw show ?thesis
      by (simp del: split_paired_All)
  qed
  have fw: "faults w1 = faults wm"
    using r1(2) mr(1) by simp
  have "is_dir w1 (Path out) = is_dir wm (Path out)"
    using fw low by (intro is_dir_agree) (simp_all del: split_paired_All)
  with mr(2) have dir: "is_dir w1 (Path out)"
    by simp
  have orc: "\<forall>e. faults w1 Sys_mkdir (Path out) = Some e \<longrightarrow>
      is_os_error (exn_cls e) \<and> exn_cls e \<noteq> FileNotFoundError"
    using mr(3) r1(2) by simp
  from mkdir_again [OF dir orc] have mk2: "mkdir (Path out) w1 = (Inr (), w1)" .
  have wr: "fst (write_text f t w1) = Inr ()"
    if "fst (write_text f t wm) = Inr ()" "length (snd f) = Suc (length (snd (Path out)))"
      "\<exists>x. nodes w1 f = Some (File x)" for f t
  proof -
    have "above w1 (path_str f) f = above wm (path_str f) f"
      using fw low that(2) by (intro above_agree) (simp_all del: split_paired_All)
    with that fw show ?thesis
      by (auto simp add: write_text_Inr_iff node_at_def)
  qed
  have "fst (write_text (prompt_file out) [] w1) = Inr ()"
    "fst (write_text (metadata_file out) [] w1) = Inr ()"
    "fst (write_text (readme_file out) [] w1) = Inr ()"
    using r1(5-7) r1(8) [of "[]"] r1(9) [of "[]"] r1(10) [of "[]"] mkw ls
    by (simp_all add: wr)
  with gv_succeeds [OF len, of out w1 "[]" "[]" "[]"] mk2 r1(1)
  obtain w2 where gv2: "generate_video prompt out w1 = (Inr m, w2)" by auto
  note r2 = gv_Inr [OF gv2]
  have "nodes w2 q = nodes w1 q" for q
    using r1(5-7) r2(3,5-7) mk2
    by (cases "q \<in> {prompt_file out, metadata_file out, readme_file out}")
       (auto simp del: split_paired_All)
  then have "nodes w2 = nodes w1" by (rule ext)
  with gv2 show "\<exists>w2. generate_video prompt out w1 = (Inr m, w2) \<and> nodes w2 = nodes w1" by blast
  show "\<exists>t1 t2 t3. nodes w1 (prompt_file out) = Some (File t1) \<and>
            nodes w1 (metadata_file out) = Some (File t2) \<and>
            nodes w1 (readme_file out) = Some (File t3)"
    using r1(5-7) by blast
next
  fix w' m' w1' assume gv': "generate_video prompt out w' = (Inr m', w1')"
  note r1 = gv_Inr [OF assms] and r' = gv_Inr [OF gv']
  from r1(1) r'(1) show "m' = m" by simp
  from r1(5) r'(5) show "nodes w1' (prompt_file out) = nodes w1 (prompt_file out)" by simp
  from r1(1,6) r'(1,6) show "nodes w1' (metadata_file out) = nodes w1 (metadata_file out)" by simp
  from r1(7) r'(7) show "nodes w1' (readme_file out) = nodes w1 (readme_file out)" by simp
qed

theorem generate_video_idempotent_witness:
  "\<exists>m w1 w2. generate_video (PyStr ''test'') ''output'' world0 = (Inr m, w1) \<and>
     generate_video (PyStr ''test'') ''output'' w1 = (Inr m, w2) \<and> nodes w2 = nodes w1 \<and>
     nodes w1 (metadata_file ''output'') \<noteq> None"
proof -
  from gv_world0 [of "PyStr ''test''" 4 "''output''" "''output''"] sample_paths(1)
  obtain m w1 where gv: "generate_video (PyStr ''test'') ''output'' world0 = (Inr m, w1)"
    by auto
  from generate_video_idempotent [OF gv] gv show ?thesis by blast
qed

subsection \<open>Loading the configuration\<close>





subsection \<open>A configuration without a scene description\<close>





subsection \<open>The metadata record\<close>

text \<open>
  The text that \<open>json.dump\<close> writes for the metadata of a scene description \<open>s\<close>,
  line by line: two spaces of indentation per level.
\<close>

lemma json_dumps_metadata:
  \<open>json_dumps 2 (metadata_dict (PyStr s) optimized_prompt out) =
     ''{\<newline>'' @
     ''  "original_prompt": '' @ json_str s @ '',\<newline>'' @
     ''  "optimized_prompt": '' @ json_str optimized_prompt @ '',\<newline>'' @
     ''  "output_path": '' @ json_str out @ '',\<newline>'' @
     ''  "status": "ready_for_generation",\<newline>'' @
     ''  "technical_specs": {\<newline>'' @
     ''    "resolution": "1920x1080",\<newline>'' @
     ''    "fps": 30,\<newline>'' @
     ''    "duration_seconds": "30-60",\<newline>'' @
     ''    "format": "MP4",\<newline>'' @
     ''    "codec": "H.264"\<newline>'' @
     ''  },\<newline>'' @
     ''  "notes": [\<newline>'' @
     ''    "This system prepares video generation prompts for AI video generation services",\<newline>'' @
     ''    "To generate the actual video, use services like:",\<newline>'' @
     ''    "  - OpenAI's Sora (when available)",\<newline>'' @
     ''    "  - Runway Gen-2",\<newline>'' @
     ''    "  - Stability AI's Stable Video Diffusion",\<newline>'' @
     ''    "  - Pika Labs",\<newline>'' @
     ''    "  - Other AI video generation platforms"\<newline>'' @
     ''  ]\<newline>'' @
     ''}''\<close>
proof -
  have k [simp]: "json_str (x # xs) = dquote # concat (map json_escape_char (x # xs)) @ [dquote]" for x xs
    by (simp add: json_str_def)
  have r: "replicate 2 x = [x, x]" "replicate 4 x = [x, x, x, x]" for x :: char
    by (simp_all add: eval_nat_numeral)
  show ?thesis
    by (simp add: json_dumps_def metadata_dict_def newline_indent_def json_escape_char_def
          str_of_int_def str_of_nat.simps hex_digit_def r)
qed


text \<open>
  Claim C5. For every scene description \<open>s\<close>, the metadata that \<open>generate_video\<close>
  assembles and writes to \<open>metadata.json\<close> is a JSON object, written with an indent of
  two spaces, whose \<open>original_prompt\<close> is \<open>s\<close>, whose \<open>optimized_prompt\<close> is
  \<open>generate_video_prompt\<close> of \<open>s\<close>, whose \<open>status\<close> is \<open>ready_for_generation\<close> and
  whose \<open>technical_specs\<close> have the resolution \<open>1920x1080\<close> and 30 frames per second.
\<close>

theorem metadata_record:
  assumes \<open>generate_video (PyStr s) out w = (Inr m, w1)\<close>
  shows \<open>nodes w1 (metadata_file out) = Some (File (json_dumps 2 m)) \<and>
     (\<exists>kvs. m = PyDict kvs) \<and>
     py_get m ''original_prompt'' PyNone = Inr (PyStr s) \<and>
     py_get m ''optimized_prompt'' PyNone = Inr (PyStr (generate_video_prompt (PyStr s))) \<and>
     py_get m ''status'' PyNone = Inr (PyStr ''ready_for_generation'') \<and>
     (\<exists>specs. py_get m ''technical_specs'' PyNone = Inr specs \<and>
        py_get specs ''resolution'' PyNone = Inr (PyStr ''1920x1080'') \<and>
        py_get specs ''fps'' PyNone = Inr (PyInt 30)) \<and>
     (\<exists>rest. json_dumps 2 m =
        ''{\<newline>'' @
        ''  "original_prompt": '' @ json_str s @ '',\<newline>'' @
        ''  "optimized_prompt": '' @ json_str (generate_video_prompt (PyStr s)) @ '',\<newline>'' @
        ''  "output_path": '' @ json_str out @ '',\<newline>'' @
        ''  "status": "ready_for_generation",\<newline>'' @
        ''  "technical_specs": {\<newline>'' @
        ''    "resolution": "1920x1080",\<newline>'' @
        ''    "fps": 30,\<newline>'' @ rest)\<close>
proof -
  note r = gv_Inr [OF assms]
  have \<open>nodes w1 (metadata_file out) = Some (File (json_dumps 2 m))\<close>
    by (rule r(6))
  moreover have \<open>\<exists>kvs. m = PyDict kvs\<close>
    by (simp add: r(1) metadata_dict_def)
  moreover have \<open>py_get m ''original_prompt'' PyNone = Inr (PyStr s)\<close>
    \<open>py_get m ''optimized_prompt'' PyNone = Inr (PyStr (generate_video_prompt (PyStr s)))\<close>
    \<open>py_get m ''status'' PyNone = Inr (PyStr ''ready_for_generation'')\<close>
    by (simp_all add: r(1) metadata_dict_def)
  moreover have \<open>\<exists>specs. py_get m ''technical_specs'' PyNone = Inr specs \<and>
        py_get specs ''resolution'' PyNone = Inr (PyStr ''1920x1080'') \<and>
        py_get specs ''fps'' PyNone = Inr (PyInt 30)\<close>
    by (simp add: r(1) metadata_dict_def)
  moreover have \<open>\<exists>rest. json_dumps 2 m =
        ''{\<newline>'' @
        ''  "original_prompt": '' @ json_str s @ '',\<newline>'' @
        ''  "optimized_prompt": '' @ json_str (generate_video_prompt (PyStr s)) @ '',\<newline>'' @
        ''  "output_path": '' @ json_str out @ '',\<newline>'' @
        ''  "status": "ready_for_generation",\<newline>'' @
        ''  "technical_specs": {\<newline>'' @
        ''    "resolution": "1920x1080",\<newline>'' @
        ''    "fps": 30,\<newline>'' @ rest\<close>
    unfolding r(1) json_dumps_metadata by (intro exI) (rule refl)
  ultimately show ?thesis by blast
qed

theorem metadata_record_witness:
  \<open>\<exists>m w1. generate_video (PyStr ''test'') ''output'' world0 = (Inr m, w1) \<and>
     nodes w1 (metadata_file ''output'') = Some (File (json_dumps 2 m)) \<and>
     py_get m ''original_prompt'' PyNone = Inr (PyStr ''test'') \<and>
     py_get m ''status'' PyNone = Inr (PyStr ''ready_for_generation'')\<close>
proof -
  from gv_world0 [of "PyStr ''test''" 4 "''output''" "''output''"] sample_paths(1)
  obtain m w1 where a: "generate_video (PyStr ''test'') ''output'' world0 = (Inr m, w1)"
    by auto
  from metadata_record [OF a] a show ?thesis by blast
qed


subsection \<open>The command line\<close>

text \<open>
  Claim C6. When neither \<open>--config\<close> nor \<open>--prompt\<close> is given, \<open>main\<close> stops with
  the usage error of the argument parser: the exit status is 2, hence not zero, and the
  file system is untouched.
\<close>

theorem main_without_input:
  assumes "args_config a = None" and "args_prompt a = None"
  shows "main loads a w =
           (2, w\<lparr>console := console w @ [Usage_error ''Either --config or --prompt must be provided'']\<rparr>) \<and>
         fst (main loads a w) \<noteq> 0 \<and> nodes (snd (main loads a w)) = nodes w"
  using assms by (simp add: main_def parser_error_def)

theorem main_without_input_witness:
  "main sample_loads \<lparr>args_config = None, args_prompt = None, args_output = ''output''\<rparr> world0 =
     (2, world0\<lparr>console := [Usage_error ''Either --config or --prompt must be provided'']\<rparr>) \<and>
   nodes (snd (main sample_loads \<lparr>args_config = None, args_prompt = None, args_output = ''output''\<rparr> world0))
     = Map.empty"
  using main_without_input [of "\<lparr>args_config = None, args_prompt = None, args_output = ''output''\<rparr>"
      sample_loads world0]
  by (simp add: world0_def)


subsection \<open>File system errors\<close>

text \<open>
  Claim C7. \<open>generate_video\<close> handles no file system error. Whichever of its four
  operations raises first (creating the directory, writing the prompt, the metadata or
  the instructions), \<open>generate_video\<close> raises that exception to its caller, and nothing
  is cleaned up. When creating the directory raises, the directories above it that
  \<open>mkdir\<close> has made stay, and no file is created or changed. When a write raises, the
  files written before are on disk with their full content and the files not yet written
  are as they were. \<open>main\<close> then prints the message of the exception and exits with
  status 1, leaving the file system as it is. Whether the directory can be made is stated
  for the world in which \<open>generate_video\<close> starts, and whether a file can be written
  for the world that making the directory leaves: the steps in between do not change that.
\<close>

theorem filesystem_error_propagates:
  assumes len: "py_len prompt = Inr n"
  shows
   "(fst (mkdir (Path out) w) = Inl e \<longrightarrow>
       (\<exists>w1. generate_video prompt out w = (Inl e, w1) \<and>
          nodes w1 = nodes (snd (mkdir (Path out) w)) \<and>
          (\<forall>q t. nodes w1 q = Some (File t) \<longleftrightarrow> nodes w q = Some (File t)))) \<and>
    (fst (mkdir (Path out) w) = Inr () \<and>
     fst (write_text (prompt_file out) (generate_video_prompt prompt)
            (snd (mkdir (Path out) w))) = Inl e \<longrightarrow>
       (\<exists>w1. generate_video prompt out w = (Inl e, w1) \<and>
          nodes w1 (metadata_file out) = nodes w (metadata_file out) \<and>
          nodes w1 (readme_file out) = nodes w (readme_file out))) \<and>
    (fst (mkdir (Path out) w) = Inr () \<and>
     fst (write_text (prompt_file out) (generate_video_prompt prompt)
            (snd (mkdir (Path out) w))) = Inr () \<and>
     fst (write_text (metadata_file out)
            (json_dumps 2 (metadata_dict prompt (generate_video_prompt prompt) out))
            (snd (mkdir (Path out) w))) = Inl e \<longrightarrow>
       (\<exists>w1. generate_video prompt out w = (Inl e, w1) \<and>
          nodes w1 (prompt_file out) = Some (File (generate_video_prompt prompt)) \<and>
          nodes w1 (readme_file out) = nodes w (readme_file out))) \<and>
    (fst (mkdir (Path out) w) = Inr () \<and>
     fst (write_text (prompt_file out) (generate_video_prompt prompt)
            (snd (mkdir (Path out) w))) = Inr () \<and>
     fst (write_text (metadata_file out)
            (json_dumps 2 (metadata_dict prompt (generate_video_prompt prompt) out))
            (snd (mkdir (Path out) w))) = Inr () \<and>
     fst (write_text (readme_file out) readme_content (snd (mkdir (Path out) w))) = Inl e \<longrightarrow>
       (\<exists>w1. generate_video prompt out w = (Inl e, w1) \<and>
          nodes w1 (prompt_file out) = Some (File (generate_video_prompt prompt)) \<and>
          nodes w1 (metadata_file out) =
            Some (File (json_dumps 2 (metadata_dict prompt (generate_video_prompt prompt) out))))) \<and>
    (\<forall>w1 loads a.
       generate_video prompt out w = (Inl e, w1) \<and> args_output a = out \<and> truthy prompt \<and>
       (\<not> truthy (arg_val (args_config a)) \<and> arg_val (args_prompt a) = prompt \<or>
        (\<exists>c cfg. args_config a = Some c \<and> c \<noteq> [] \<and>
           load_config loads c w = (Inr cfg, w) \<and>
           py_get cfg ''scene_description'' (PyStr []) = Inr prompt)) \<longrightarrow>
       main loads a w = (1, print (''\<newline>Error: '' @ exn_str e) w1) \<and>
       nodes (snd (main loads a w)) = nodes w1)"
proof -
  obtain r w1 where gv: "generate_video prompt out w = (r, w1)"
    by fastforce
  note o = gv_outcome [OF gv len]
  obtain rm wm where mkw: "mkdir (Path out) w = (rm, wm)"
    by fastforce
  have files: "nodes wm q = Some (File t) \<longleftrightarrow> nodes w q = Some (File t)" for q t
    by (rule mkdir_result(4) [OF mkw])
  have s1: "fst (mkdir (Path out) w) = Inl e \<longrightarrow>
       (\<exists>w1. generate_video prompt out w = (Inl e, w1) \<and>
          nodes w1 = nodes (snd (mkdir (Path out) w)) \<and>
          (\<forall>q t. nodes w1 q = Some (File t) \<longleftrightarrow> nodes w q = Some (File t)))"
  proof
    assume "fst (mkdir (Path out) w) = Inl e"
    with o gv have "generate_video prompt out w = (Inl e, w1) \<and>
        nodes w1 = nodes (snd (mkdir (Path out) w))"
      by auto
    with files mkw show "\<exists>w1. generate_video prompt out w = (Inl e, w1) \<and>
          nodes w1 = nodes (snd (mkdir (Path out) w)) \<and>
          (\<forall>q t. nodes w1 q = Some (File t) \<longleftrightarrow> nodes w q = Some (File t))"
      by (intro exI [of _ w1]) simp
  qed
  have s2: "fst (mkdir (Path out) w) = Inr () \<and>
     fst (write_text (prompt_file out) (generate_video_prompt prompt)
            (snd (mkdir (Path out) w))) = Inl e \<longrightarrow>
       (\<exists>w1. generate_video prompt out w = (Inl e, w1) \<and>
          nodes w1 (metadata_file out) = nodes w (metadata_file out) \<and>
          nodes w1 (readme_file out) = nodes w (readme_file out))"
    using o gv by auto
  have s3: "fst (mkdir (Path out) w) = Inr () \<and>
     fst (write_text (prompt_file out) (generate_video_prompt prompt)
            (snd (mkdir (Path out) w))) = Inr () \<and>
     fst (write_text (metadata_file out)
            (json_dumps 2 (metadata_dict prompt (generate_video_prompt prompt) out))
            (snd (mkdir (Path out) w))) = Inl e \<longrightarrow>
       (\<exists>w1. generate_video prompt out w = (Inl e, w1) \<and>
          nodes w1 (prompt_file out) = Some (File (generate_video_prompt prompt)) \<and>
          nodes w1 (readme_file out) = nodes w (readme_file out))"
    using o gv by auto
  have s4: "fst (mkdir (Path out) w) = Inr () \<and>
     fst (write_text (prompt_file out) (generate_video_prompt prompt)
            (snd (mkdir (Path out) w))) = Inr () \<and>
     fst (write_text (metadata_file out)
            (json_dumps 2 (metadata_dict prompt (generate_video_prompt prompt) out))
            (snd (mkdir (Path out) w))) = Inr () \<and>
     fst (write_text (readme_file out) readme_content (snd (mkdir (Path out) w))) = Inl e \<longrightarrow>
       (\<exists>w1. generate_video prompt out w = (Inl e, w1) \<and>
          nodes w1 (prompt_file out) = Some (File (generate_video_prompt prompt)) \<and>
          nodes w1 (metadata_file out) =
            Some (File (json_dumps 2 (metadata_dict prompt (generate_video_prompt prompt) out))))"
    using o gv by auto
  have s5: "main loads a w = (1, print (''\<newline>Error: '' @ exn_str e) w1') \<and>
       nodes (snd (main loads a w)) = nodes w1'"
    if h: "generate_video prompt out w = (Inl e, w1') \<and> args_output a = out \<and> truthy prompt \<and>
       (\<not> truthy (arg_val (args_config a)) \<and> arg_val (args_prompt a) = prompt \<or>
        (\<exists>c cfg. args_config a = Some c \<and> c \<noteq> [] \<and>
           load_config loads c w = (Inr cfg, w) \<and>
           py_get cfg ''scene_description'' (PyStr []) = Inr prompt))"
    for w1' loads a
  proof -
    from h consider
        (direct) "\<not> truthy (arg_val (args_config a))" "arg_val (args_prompt a) = prompt"
      | (config) c cfg where "args_config a = Some c" "c \<noteq> []"
          "load_config loads c w = (Inr cfg, w)"
          "py_get cfg ''scene_description'' (PyStr []) = Inr prompt"
      by blast
    then have "main loads a w = (1, print (''\<newline>Error: '' @ exn_str e) w1')"
    proof cases
      case direct
      with h main_prompt_route [of a loads w] show ?thesis by simp
    next
      case config
      with h main_config_route [OF config] show ?thesis by simp
    qed
    then show ?thesis by simp
  qed
  from s1 s2 s3 s4 s5 show ?thesis by blast
qed

theorem filesystem_error_propagates_witness:
  "py_len (PyStr ''test'') = Inr 4 \<and>
   mkdir (Path ''output'') world_disk_full =
     (Inr (), world_disk_full\<lparr>nodes := [Path ''output'' \<mapsto> Dir]\<rparr>) \<and>
   fst (write_text (prompt_file ''output'') (generate_video_prompt (PyStr ''test''))
          (snd (mkdir (Path ''output'') world_disk_full)))
     = Inr () \<and>
   fst (write_text (metadata_file ''output'')
          (json_dumps 2 (metadata_dict (PyStr ''test'') (generate_video_prompt (PyStr ''test'')) ''output''))
          (snd (mkdir (Path ''output'') world_disk_full)))
     = Inl (Exn OSError ''[Errno 28] No space left on device'') \<and>
   (\<exists>w1. generate_video (PyStr ''test'') ''output'' world_disk_full =
            (Inl (Exn OSError ''[Errno 28] No space left on device''), w1) \<and>
      nodes w1 (prompt_file ''output'') = Some (File (generate_video_prompt (PyStr ''test''))) \<and>
      nodes w1 (readme_file ''output'') = None \<and>
      main sample_loads \<lparr>args_config = None, args_prompt = Some ''test'', args_output = ''output''\<rparr>
        world_disk_full =
        (1, print ''\<newline>Error: [Errno 28] No space left on device'' w1)) \<and>
   mkdir (Path ''a/b'') world_no_space =
     (Inl (os_error OSError 28 ''No space left on device'' ''a/b''),
      world_no_space\<lparr>nodes := [Path ''a'' \<mapsto> Dir]\<rparr>) \<and>
   (\<exists>w1. generate_video (PyStr ''test'') ''a/b'' world_no_space =
            (Inl (os_error OSError 28 ''No space left on device'' ''a/b''), w1) \<and>
      nodes w1 = [Path ''a'' \<mapsto> Dir])"
proof -
  note ds = output_paths_distinct [of "Path ''output''"]
  let ?wm = "world_disk_full\<lparr>nodes := [Path ''output'' \<mapsto> Dir]\<rparr>"
  let ?e = "Exn OSError ''[Errno 28] No space left on device''"
  let ?e' = "os_error OSError 28 ''No space left on device'' ''a/b''"
  have len: "py_len (PyStr ''test'') = Inr 4"
    by simp
  have "os_mkdir (Path ''output'') world_disk_full = Inr ?wm"
    by (simp add: os_mkdir_def above_def node_at_def world_disk_full_def world0_def sample_paths)
  then have mk: "mkdir (Path ''output'') world_disk_full = (Inr (), ?wm)"
    by (rule mkdir_fresh)
  have ab: "above ?wm s (joinpath (Path ''output'') name) = None"
    if "joinpath (Path ''output'') name = ([], [''output'', name])" for s name
    using that by (simp add: above_def world_disk_full_def world0_def sample_paths)
  have w1: "fst (write_text (prompt_file ''output'') (generate_video_prompt (PyStr ''test'')) ?wm)
      = Inr ()"
    using ds ab [of "''generation_prompt.txt''"]
    by (simp add: write_text_Inr_iff node_at_def joinpath_name world_disk_full_def world0_def
          sample_paths)
  have w2: "fst (write_text (metadata_file ''output'')
          (json_dumps 2 (metadata_dict (PyStr ''test'') (generate_video_prompt (PyStr ''test'')) ''output''))
          ?wm) = Inl ?e"
    using ds ab [of "''metadata.json''"]
    by (simp add: write_text_def node_at_def joinpath_name world_disk_full_def world0_def
          sample_paths)
  have none: "nodes world_disk_full (readme_file ''output'') = None"
    by (simp add: world_disk_full_def world0_def)
  note t = filesystem_error_propagates [OF len, of "''output''" world_disk_full ?e]
  from t mk w1 w2 obtain wf where
    gv: "generate_video (PyStr ''test'') ''output'' world_disk_full = (Inl ?e, wf)"
    and f1: "nodes wf (prompt_file ''output'') = Some (File (generate_video_prompt (PyStr ''test'')))"
    and f3: "nodes wf (readme_file ''output'') = nodes world_disk_full (readme_file ''output'')"
    by auto
  from t gv have m: "main sample_loads
      \<lparr>args_config = None, args_prompt = Some ''test'', args_output = ''output''\<rparr> world_disk_full =
        (1, print (''\<newline>Error: '' @ exn_str ?e) wf)"
    by simp
  have pa: "Path ''a/b'' = ([], [''a'', ''b''])" "Path ''a'' = ([], [''a''])"
    by (simp_all add: Path_def splitroot_def)
  let ?wa = "world_no_space\<lparr>nodes := [Path ''a'' \<mapsto> Dir]\<rparr>"
  have "os_mkdir (Path ''a/b'') world_no_space =
      Inl (os_error FileNotFoundError 2 ''No such file or directory'' (path_str (Path ''a/b'')))"
    by (simp add: os_mkdir_def above_def world_no_space_def world0_def pa)
  moreover have "os_mkdir (parent (Path ''a/b'')) world_no_space = Inr ?wa"
    by (simp add: os_mkdir_def above_def node_at_def parent_def world_no_space_def world0_def pa)
  then have "mkdir (parent (Path ''a/b'')) world_no_space = (Inr (), ?wa)"
    by (rule mkdir_fresh)
  moreover have "os_mkdir (Path ''a/b'') ?wa = Inl ?e'"
    by (simp add: os_mkdir_def above_def world_no_space_def world0_def pa)
  moreover have "\<not> is_dir ?wa (Path ''a/b'')"
    by (simp add: is_dir_def node_at_def world_no_space_def world0_def pa)
  ultimately have mk': "mkdir (Path ''a/b'') world_no_space = (Inl ?e', ?wa)"
    by (subst mkdir.simps)
       (simp add: mkdir_leaf_def mkdir_exist_ok_def os_error_def pa)
  note t' = filesystem_error_propagates [OF len, of "''a/b''" world_no_space ?e']
  from t' mk' obtain wg where
    gv': "generate_video (PyStr ''test'') ''a/b'' world_no_space = (Inl ?e', wg)"
    and g1: "nodes wg = nodes ?wa"
    by auto
  from g1 have g2: "nodes wg = [Path ''a'' \<mapsto> Dir]"
    by (simp add: world_no_space_def world0_def)
  from len mk w1 w2 gv f1 f3 none m mk' gv' g2 show ?thesis
    by (simp only: snd_conv exn_str.simps append.simps) blast
qed

subsection \<open>The instructions file\<close>

text \<open>
  Claim C8. The \<open>README.md\<close> that \<open>generate_video\<close> writes has the same fixed content
  on every run: two successful runs on any two prompts, output paths and worlds both leave
  the text \<open>readme_content\<close>, which mentions no input.
\<close>

theorem readme_content_fixed:
  assumes "generate_video prompt out w = (Inr m, w1)"
    and "generate_video prompt' out' w' = (Inr m', w1')"
  shows "nodes w1 (readme_file out) = Some (File readme_content) \<and>
         nodes w1' (readme_file out') = Some (File readme_content)"
  using gv_Inr(7) [OF assms(1)] gv_Inr(7) [OF assms(2)] by simp

theorem readme_content_fixed_witness:
  "\<exists>m w1 m' w1'.
     generate_video (PyStr ''A red boat at dawn'') ''tmp1'' world0 = (Inr m, w1) \<and>
     generate_video (PyStr ''test'') ''output'' world0 = (Inr m', w1') \<and>
     nodes w1 (readme_file ''tmp1'') = Some (File readme_content) \<and>
     nodes w1' (readme_file ''output'') = Some (File readme_content)"
proof -
  from gv_world0 [of "PyStr ''A red boat at dawn''" 18 "''tmp1''" "''tmp1''"] sample_paths(2)
  obtain m w1 where a: "generate_video (PyStr ''A red boat at dawn'') ''tmp1'' world0 = (Inr m, w1)"
    by auto
  from gv_world0 [of "PyStr ''test''" 4 "''output''" "''output''"] sample_paths(1)
  obtain m' w1' where b: "generate_video (PyStr ''test'') ''output'' world0 = (Inr m', w1')"
    by auto
  from readme_content_fixed [OF a b] a b show ?thesis by blast
qed


text \<open>
  Claim C9. \<open>--prompt\<close> with the empty string and no \<open>--config\<close> is treated as if
  neither flag were given: the same usage error, a non-zero exit status, no output.
\<close>

theorem main_empty_prompt:
  assumes "args_config a = None" and "args_prompt a = Some []"
  shows "main loads a w = main loads (a\<lparr>args_prompt := None\<rparr>) w \<and>
         main loads a w =
           (2, w\<lparr>console := console w @ [Usage_error ''Either --config or --prompt must be provided'']\<rparr>) \<and>
         fst (main loads a w) \<noteq> 0 \<and> nodes (snd (main loads a w)) = nodes w"
  using assms by (simp add: main_def parser_error_def)

theorem main_empty_prompt_witness:
  "main sample_loads \<lparr>args_config = None, args_prompt = Some [], args_output = ''output''\<rparr> world0 =
   main sample_loads
     (\<lparr>args_config = None, args_prompt = Some [], args_output = ''output''\<rparr>\<lparr>args_prompt := None\<rparr>) world0 \<and>
   main sample_loads \<lparr>args_config = None, args_prompt = Some [], args_output = ''output''\<rparr> world0 =
     (2, world0\<lparr>console := console world0 @
           [Usage_error ''Either --config or --prompt must be provided'']\<rparr>)"
proof -
  have h: "args_config \<lparr>args_config = None, args_prompt = Some [], args_output = ''output''\<rparr> = None"
    "args_prompt \<lparr>args_config = None, args_prompt = Some [], args_output = ''output''\<rparr> = Some []"
    by simp_all
  from main_empty_prompt [OF h] show ?thesis by blast
qed

subsection \<open>Precedence of the configuration\<close>

text \<open>
  Claim C10, amended. When \<open>--config\<close> is given with a non-empty path, the value of
  \<open>--prompt\<close> is ignored: \<open>main\<close> does the same whatever it is. The scene description
  is the one of the loaded configuration: \<open>generate_video\<close> runs on it when it tests
  true, and otherwise the process exits with status 1, whatever the prompt.
\<close>

theorem config_takes_precedence:
  assumes "args_config a = Some c" and "c \<noteq> []"
  shows "main loads (a\<lparr>args_prompt := p\<rparr>) w = main loads a w \<and>
    (\<forall>cfg w1 v. load_config loads c w = (Inr cfg, w1) \<and>
        py_get cfg ''scene_description'' (PyStr []) = Inr v \<longrightarrow>
        main loads a w =
          (if truthy v
           then (case generate_video v (args_output a) w1 of
                   (Inr result, w2) \<Rightarrow> (0, w2)
                 | (Inl e, w2) \<Rightarrow> (1, print (''\<newline>Error: '' @ exn_str e) w2))
           else (1, print (''Error: No '' @ [squote] @ ''scene_description'' @ [squote]
                            @ '' found in config file'') w1)))"
proof (intro conjI allI impI)
  from assms show "main loads (a\<lparr>args_prompt := p\<rparr>) w = main loads a w"
    by (simp add: main_def split: prod.splits sum.splits)
next
  fix cfg w1 v
  assume "load_config loads c w = (Inr cfg, w1) \<and>
        py_get cfg ''scene_description'' (PyStr []) = Inr v"
  with main_config_route [OF assms, of loads w cfg w1 v]
  show "main loads a w =
          (if truthy v
           then (case generate_video v (args_output a) w1 of
                   (Inr result, w2) \<Rightarrow> (0, w2)
                 | (Inl e, w2) \<Rightarrow> (1, print (''\<newline>Error: '' @ exn_str e) w2))
           else (1, print (''Error: No '' @ [squote] @ ''scene_description'' @ [squote]
                            @ '' found in config file'') w1))"
    by simp
qed

theorem config_takes_precedence_witness:
  "main sample_loads
     (\<lparr>args_config = Some ''scene.json'', args_prompt = Some ''A beautiful sunset scene'',
       args_output = ''tmp1''\<rparr>\<lparr>args_prompt := None\<rparr>) world_with_config =
   main sample_loads
     \<lparr>args_config = Some ''scene.json'', args_prompt = Some ''A beautiful sunset scene'',
       args_output = ''tmp1''\<rparr> world_with_config \<and>
   fst (main sample_loads
     \<lparr>args_config = Some ''scene.json'', args_prompt = Some ''A beautiful sunset scene'',
       args_output = ''tmp1''\<rparr> world_with_config) = 0 \<and>
   nodes (snd (main sample_loads
     \<lparr>args_config = Some ''scene.json'', args_prompt = Some ''A beautiful sunset scene'',
       args_output = ''tmp1''\<rparr> world_with_config)) (prompt_file ''tmp1'') =
     Some (File (generate_video_prompt (PyStr ''A red boat at dawn'')))"
proof -
  let ?a = "\<lparr>args_config = Some ''scene.json'', args_prompt = Some ''A beautiful sunset scene'',
       args_output = ''tmp1''\<rparr>"
  have h: "args_config ?a = Some ''scene.json''" "''scene.json'' \<noteq> []"
    by simp_all
  note t = config_takes_precedence [OF h, of sample_loads None world_with_config]
  have l: "load_config sample_loads ''scene.json'' world_with_config =
      (Inr (PyDict [(''scene_description'', PyStr ''A red boat at dawn'')]), world_with_config)"
    by (simp add: load_config_def read_text_def above_def node_at_def dir_form_def sample_loads_def
          world_with_config_def world0_def sample_paths)
  have g: "py_get (PyDict [(''scene_description'', PyStr ''A red boat at dawn'')])
      ''scene_description'' (PyStr []) = Inr (PyStr ''A red boat at dawn'')"
    by simp
  have "\<exists>w1. generate_video (PyStr ''A red boat at dawn'') ''tmp1'' world_with_config =
      (Inr (metadata_dict (PyStr ''A red boat at dawn'')
         (generate_video_prompt (PyStr ''A red boat at dawn'')) ''tmp1''), w1)"
    by (rule gv_fresh [where n = 18 and c = "''tmp1''"])
       (simp_all add: world_with_config_def world0_def sample_paths)
  then obtain w1 where gv: "generate_video (PyStr ''A red boat at dawn'') ''tmp1'' world_with_config =
      (Inr (metadata_dict (PyStr ''A red boat at dawn'')
         (generate_video_prompt (PyStr ''A red boat at dawn'')) ''tmp1''), w1)" ..
  from t l g gv have m: "main sample_loads ?a world_with_config = (0, w1)"
    by simp
  from t m gv_Inr(5) [OF gv] show ?thesis by simp
qed

text \<open>
  The claim as stated, whenever both flags are supplied, fails for the empty path:
  with \<open>--config ""\<close> the prompt of the command line is the one written to the files.
\<close>

theorem empty_config_path_uses_prompt_counterexample:
  "nodes (snd (main sample_loads
          \<lparr>args_config = Some [], args_prompt = Some ''hello'', args_output = ''output''\<rparr> world0))
     (prompt_file ''output'') = Some (File (generate_video_prompt (PyStr ''hello''))) \<and>
   nodes (snd (main sample_loads
          \<lparr>args_config = Some [], args_prompt = Some ''other'', args_output = ''output''\<rparr> world0))
     (prompt_file ''output'') = Some (File (generate_video_prompt (PyStr ''other''))) \<and>
   generate_video_prompt (PyStr ''hello'') \<noteq> generate_video_prompt (PyStr ''other'')"
proof -
  from main_empty_config_path [of "''hello''" "''output''" "''output''" sample_loads] sample_paths(1)
  obtain w1 where m: "main sample_loads
          \<lparr>args_config = Some [], args_prompt = Some ''hello'', args_output = ''output''\<rparr> world0 = (0, w1)"
    and gv: "generate_video (PyStr ''hello'') ''output'' world0 =
       (Inr (metadata_dict (PyStr ''hello'') (generate_video_prompt (PyStr ''hello'')) ''output''), w1)"
    by auto
  from main_empty_config_path [of "''other''" "''output''" "''output''" sample_loads] sample_paths(1)
  obtain w1' where m': "main sample_loads
          \<lparr>args_config = Some [], args_prompt = Some ''other'', args_output = ''output''\<rparr> world0 = (0, w1')"
    and gv': "generate_video (PyStr ''other'') ''output'' world0 =
       (Inr (metadata_dict (PyStr ''other'') (generate_video_prompt (PyStr ''other'')) ''output''), w1')"
    by auto
  have "generate_video_prompt (PyStr ''hello'') \<noteq> generate_video_prompt (PyStr ''other'')"
    by (simp add: generate_video_prompt_def)
  with gv_Inr(5) [OF gv] gv_Inr(5) [OF gv'] m m' show ?thesis by simp
qed


end
